theory Spec2Isabelle
  imports Main "HOL-Library.Sublist"
begin

section \<open>Resource management backend: data model\<close>

text \<open>
  A shallow embedding of the service layer of \<^verbatim>\<open>backend_code.py\<close>: the two tables
  (\<^verbatim>\<open>AccountModel\<close>, \<^verbatim>\<open>DemandModel\<close>), the request schemas, and the static methods of
  \<^verbatim>\<open>AccountService\<close>, \<^verbatim>\<open>DemandService\<close> and \<^verbatim>\<open>DashboardService\<close>.

  Conventions.
  \<^item> Both tables have columns of the same name, so every field carries a prefix:
    \<open>a_\<close> (AccountModel), \<open>d_\<close> (DemandModel), \<open>ac_\<close> (AccountCreate), \<open>au_\<close> (AccountUpdate),
    \<open>dc_\<close> (DemandCreate), \<open>du_\<close> (DemandUpdate).
  \<^item> A column declared without \<^verbatim>\<open>nullable=False\<close> may hold NULL; the update methods can
    write \<^verbatim>\<open>None\<close> into any business column, so those columns are options. The primary
    keys, \<^verbatim>\<open>DemandModel.id\<close>, \<^verbatim>\<open>DemandModel.account_id\<close> and the four audit columns are
    only ever written with non-null values by the service methods.
  \<^item> A string is the UTF-8 encoding of a Python \<^verbatim>\<open>str\<close>, byte by byte; a \<^verbatim>\<open>str\<close> that has
    none (one with a lone surrogate) is not an input of the model. An \<open>int\<close> is a Python
    \<^verbatim>\<open>int\<close>, unbounded.
  \<^item> Every \<^verbatim>\<open>datetime.datetime.now()\<close> of the source is an explicit argument: the reading
    the clock gave at that call.
  \<^item> \<^verbatim>\<open>datetime.datetime.strptime(s, "%Y-%m-%d").date()\<close> is a library function; it is the
    parameter \<open>strptime\<close>, with \<open>None\<close> for the \<^verbatim>\<open>ValueError\<close> it raises.
  \<^item> A method returns its result together with the database after the call: an exception
    leaves the session uncommitted, and the session is closed (rolled back) by \<^verbatim>\<open>get_db\<close>.
\<close>

subsection \<open>Dates and clock readings\<close>

datatype date = Date (year: nat) (month: nat) (day: nat)

datatype datetime = DateTime (dt_date: date) (hour: nat) (minute: nat) (second: nat)

definition digit_char :: "nat \<Rightarrow> char" where
  "digit_char n = char_of (48 + n)"

fun str_nat :: "nat \<Rightarrow> string" where
  "str_nat n = (if n < 10 then [digit_char n] else str_nat (n div 10) @ [digit_char (n mod 10)])"

declare str_nat.simps [simp del]

definition zero_pad :: "nat \<Rightarrow> nat \<Rightarrow> string" where
  "zero_pad w n = replicate (w - length (str_nat n)) (CHR ''0'') @ str_nat n"

text \<open>\<^verbatim>\<open>strftime('%Y%m%d%H%M%S')\<close>: the year on four digits, the other parts on two.\<close>

definition strftime :: "datetime \<Rightarrow> string" where
  "strftime t =
     zero_pad 4 (year (dt_date t)) @ zero_pad 2 (month (dt_date t)) @ zero_pad 2 (day (dt_date t))
     @ zero_pad 2 (hour t) @ zero_pad 2 (minute t) @ zero_pad 2 (second t)"

subsection \<open>Tables\<close>

record AccountModel =
  a_id :: string
  a_client :: "string option"
  a_project :: "string option"
  a_vertical :: "string option"
  a_geo :: "string option"
  a_start_month :: "string option"
  a_revised_start_date :: "date option"
  a_planned_start_date :: "date option"
  a_planned_end_date :: "date option"
  a_probability :: "int option"
  a_opportunity_status :: "string option"
  a_sow_status :: "string option"
  a_project_status :: "string option"
  a_client_partner :: "string option"
  a_proposal_anchor :: "string option"
  a_delivery_partner :: "string option"
  a_comment :: "string option"
  a_last_updated_by :: string
  a_updated_on :: date
  a_added_by :: string
  a_added_on :: date

record DemandModel =
  d_sno :: nat
  d_id :: string
  d_account_id :: string
  d_project :: "string option"
  d_role :: "string option"
  d_role_code :: "string option"
  d_location :: "string option"
  d_revised :: "string option"
  d_original_start_date :: "date option"
  d_allocation_end_date :: "date option"
  d_allocation_percentage :: "int option"
  d_probability :: "int option"
  d_status :: "string option"
  d_resource_mapped :: "string option"
  d_comment :: "string option"
  d_last_updated_by :: string
  d_updated_on :: date
  d_added_by :: string
  d_added_on :: date
  d_start_month :: "string option"

text \<open>The database: the rows of each table, in insertion order.\<close>

record database =
  accounts :: "AccountModel list"
  demands :: "DemandModel list"

definition empty_db :: database where
  "empty_db = \<lparr>accounts = [], demands = []\<rparr>"

subsection \<open>Request schemas\<close>

datatype ProbabilityEnum = FIFTY | SEVENTY_FIVE | NINETY | HUNDRED

fun probability_value :: "ProbabilityEnum \<Rightarrow> int" where
  "probability_value FIFTY = 50"
| "probability_value SEVENTY_FIVE = 75"
| "probability_value NINETY = 90"
| "probability_value HUNDRED = 100"

record AccountCreate =
  ac_client :: string
  ac_project :: string
  ac_vertical :: string
  ac_geo :: string
  ac_start_month :: string
  ac_revised_start_date :: "string option"
  ac_planned_start_date :: "string option"
  ac_planned_end_date :: "string option"
  ac_probability :: ProbabilityEnum
  ac_opportunity_status :: string
  ac_sow_status :: string
  ac_project_status :: string
  ac_client_partner :: string
  ac_proposal_anchor :: string
  ac_delivery_partner :: string
  ac_comment :: "string option"

text \<open>
  In the update schemas every field is \<^verbatim>\<open>Optional\<close> with default \<^verbatim>\<open>None\<close>, and the services
  read them through \<^verbatim>\<open>dict(exclude_unset=True)\<close>: a field the request left out is absent
  from the dictionary (\<open>Unset\<close>), a field the request gave is present with its value, which
  may be \<^verbatim>\<open>None\<close> (\<open>Provided None\<close>).
\<close>

datatype 'a field = Unset | Provided 'a

record AccountUpdate =
  au_client :: "string option field"
  au_project :: "string option field"
  au_vertical :: "string option field"
  au_geo :: "string option field"
  au_start_month :: "string option field"
  au_revised_start_date :: "string option field"
  au_planned_start_date :: "string option field"
  au_planned_end_date :: "string option field"
  au_probability :: "ProbabilityEnum option field"
  au_opportunity_status :: "string option field"
  au_sow_status :: "string option field"
  au_project_status :: "string option field"
  au_client_partner :: "string option field"
  au_proposal_anchor :: "string option field"
  au_delivery_partner :: "string option field"
  au_comment :: "string option field"

record DemandCreate =
  dc_account_id :: string
  dc_project :: string
  dc_role :: string
  dc_role_code :: string
  dc_location :: string
  dc_revised :: "string option"
  dc_original_start_date :: "string option"
  dc_allocation_end_date :: "string option"
  dc_allocation_percentage :: int
  dc_probability :: int
  dc_status :: string
  dc_resource_mapped :: "string option"
  dc_comment :: "string option"
  dc_start_month :: string

record DemandUpdate =
  du_account_id :: "string option field"
  du_project :: "string option field"
  du_role :: "string option field"
  du_role_code :: "string option field"
  du_location :: "string option field"
  du_revised :: "string option field"
  du_original_start_date :: "string option field"
  du_allocation_end_date :: "string option field"
  du_allocation_percentage :: "int option field"
  du_probability :: "int option field"
  du_status :: "string option field"
  du_resource_mapped :: "string option field"
  du_comment :: "string option field"
  du_start_month :: "string option field"

subsection \<open>Errors\<close>

text \<open>
  \<open>HTTPException\<close> carries the status code and the detail the service raises it with.
  \<open>ValueError\<close> is what \<^verbatim>\<open>strptime\<close> raises on a string that is not a date.
  \<open>IntegrityError\<close> is the commit refused by the primary key of \<^verbatim>\<open>accounts.id\<close> or the
  \<^verbatim>\<open>unique=True\<close> of \<^verbatim>\<open>demands.id\<close>. \<open>StatementError\<close> is the commit refused because a
  \<^verbatim>\<open>Date\<close> column was given a value that is not a date object. \<open>OverflowError\<close> is the
  statement refused because an \<^verbatim>\<open>Integer\<close> parameter does not fit the 64-bit integer of
  the database. \<open>OperationalError\<close> is a query the database gives up on.
\<close>

datatype error =
    HTTPException nat string
  | ValueError
  | IntegrityError
  | StatementError
  | OverflowError
  | OperationalError

text \<open>
  The integers the database stores: a Python \<^verbatim>\<open>int\<close> is bound to a statement as a signed
  64-bit integer, and the driver raises \<^verbatim>\<open>OverflowError\<close> for any other.
\<close>

definition sqlite_integer :: "int \<Rightarrow> bool" where
  "sqlite_integer v = (- (2 ^ 63) \<le> v \<and> v < 2 ^ 63)"

section \<open>Account service\<close>

definition get_all_accounts :: "database \<Rightarrow> AccountModel list" where
  "get_all_accounts db = accounts db"

definition get_account_by_id :: "database \<Rightarrow> string \<Rightarrow> AccountModel option" where
  "get_account_by_id db account_id = find (\<lambda>a. a_id a = account_id) (accounts db)"

text \<open>
  The date conversion of the create methods:
  \<^verbatim>\<open>x = None; if data.f: x = datetime.datetime.strptime(data.f, "%Y-%m-%d").date()\<close>.
  An empty string is falsy, like \<^verbatim>\<open>None\<close>.
\<close>

definition to_date :: "(string \<Rightarrow> date option) \<Rightarrow> string option \<Rightarrow> error + date option" where
  "to_date strptime v =
     (case v of
        None \<Rightarrow> Inr None
      | Some s \<Rightarrow>
          if s = [] then Inr None
          else (case strptime s of None \<Rightarrow> Inl ValueError | Some d \<Rightarrow> Inr (Some d)))"

text \<open>\<^verbatim>\<open>db.add(account); db.commit()\<close>: the insert is refused when the primary key exists.\<close>

definition add_account :: "database \<Rightarrow> AccountModel \<Rightarrow> error + database" where
  "add_account db account =
     (if a_id account \<in> set (map a_id (accounts db)) then Inl IntegrityError
      else Inr (db\<lparr>accounts := accounts db @ [account]\<rparr>))"

text \<open>
  \<open>t_id\<close> is the clock reading the id is formatted from, \<open>t_now\<close> the one whose date
  stamps the audit columns (the source reads the clock twice).
\<close>

definition create_account ::
  "(string \<Rightarrow> date option) \<Rightarrow> database \<Rightarrow> AccountCreate \<Rightarrow> string \<Rightarrow> datetime \<Rightarrow> datetime
     \<Rightarrow> (error + AccountModel) \<times> database" where
  "create_account strptime db account_data user_id t_id t_now =
     (let new_id = ''ACC-'' @ strftime t_id;
          now = dt_date t_now
      in case to_date strptime (ac_revised_start_date account_data) of
           Inl e \<Rightarrow> (Inl e, db)
         | Inr revised_start \<Rightarrow>
        (case to_date strptime (ac_planned_start_date account_data) of
           Inl e \<Rightarrow> (Inl e, db)
         | Inr planned_start \<Rightarrow>
        (case to_date strptime (ac_planned_end_date account_data) of
           Inl e \<Rightarrow> (Inl e, db)
         | Inr planned_end \<Rightarrow>
        (let account = \<lparr>
               a_id = new_id,
               a_client = Some (ac_client account_data),
               a_project = Some (ac_project account_data),
               a_vertical = Some (ac_vertical account_data),
               a_geo = Some (ac_geo account_data),
               a_start_month = Some (ac_start_month account_data),
               a_revised_start_date = revised_start,
               a_planned_start_date = planned_start,
               a_planned_end_date = planned_end,
               a_probability = Some (probability_value (ac_probability account_data)),
               a_opportunity_status = Some (ac_opportunity_status account_data),
               a_sow_status = Some (ac_sow_status account_data),
               a_project_status = Some (ac_project_status account_data),
               a_client_partner = Some (ac_client_partner account_data),
               a_proposal_anchor = Some (ac_proposal_anchor account_data),
               a_delivery_partner = Some (ac_delivery_partner account_data),
               a_comment = ac_comment account_data,
               a_last_updated_by = user_id,
               a_updated_on = now,
               a_added_by = user_id,
               a_added_on = now\<rparr>
         in case add_account db account of
              Inl e \<Rightarrow> (Inl e, db)
            | Inr db' \<Rightarrow> (Inr account, db')))))"

text \<open>
  The date handling of the update methods:
  \<^verbatim>\<open>if 'f' in update_data and update_data['f']: update_data['f'] = strptime(...).date()\<close>.
  A key that is present with \<^verbatim>\<open>None\<close> or with the empty string is left as it is. So after
  this step the dictionary holds, for a date column, nothing, \<^verbatim>\<open>None\<close>, a date object, or
  the empty string.
\<close>

datatype date_value = DateNone | DateObject date | DateString string

definition convert_date ::
  "(string \<Rightarrow> date option) \<Rightarrow> string option field \<Rightarrow> error + date_value field" where
  "convert_date strptime f =
     (case f of
        Unset \<Rightarrow> Inr Unset
      | Provided None \<Rightarrow> Inr (Provided DateNone)
      | Provided (Some s) \<Rightarrow>
          if s \<noteq> [] then
            (case strptime s of
               None \<Rightarrow> Inl ValueError
             | Some d \<Rightarrow> Inr (Provided (DateObject d)))
          else Inr (Provided (DateString s)))"

text \<open>
  \<^verbatim>\<open>for key, value in update_data.items(): setattr(row, key, value)\<close>, one column at a
  time: a key that is absent leaves the column as it is.
\<close>

fun set_column :: "'a field \<Rightarrow> 'a \<Rightarrow> 'a" where
  "set_column Unset old = old"
| "set_column (Provided v) old = v"

text \<open>A date column: a string is not storable (see \<open>bindable\<close>), so it is never written.\<close>

fun set_date_column :: "date_value field \<Rightarrow> date option \<Rightarrow> date option" where
  "set_date_column Unset old = old"
| "set_date_column (Provided DateNone) old = None"
| "set_date_column (Provided (DateObject d)) old = Some d"
| "set_date_column (Provided (DateString s)) old = old"

text \<open>The flush binds each written \<^verbatim>\<open>Date\<close> column: \<^verbatim>\<open>None\<close> and date objects only.\<close>

fun bindable :: "date_value field \<Rightarrow> bool" where
  "bindable (Provided (DateString s)) = False"
| "bindable f = True"

definition apply_account_update ::
  "AccountUpdate \<Rightarrow> date_value field \<Rightarrow> date_value field \<Rightarrow> date_value field \<Rightarrow> string \<Rightarrow> date
     \<Rightarrow> AccountModel \<Rightarrow> AccountModel" where
  "apply_account_update account_data revised_start planned_start planned_end user_id today account =
     account\<lparr>
       a_client := set_column (au_client account_data) (a_client account),
       a_project := set_column (au_project account_data) (a_project account),
       a_vertical := set_column (au_vertical account_data) (a_vertical account),
       a_geo := set_column (au_geo account_data) (a_geo account),
       a_start_month := set_column (au_start_month account_data) (a_start_month account),
       a_revised_start_date := set_date_column revised_start (a_revised_start_date account),
       a_planned_start_date := set_date_column planned_start (a_planned_start_date account),
       a_planned_end_date := set_date_column planned_end (a_planned_end_date account),
       a_probability :=
         set_column (map_field (map_option probability_value) (au_probability account_data))
           (a_probability account),
       a_opportunity_status :=
         set_column (au_opportunity_status account_data) (a_opportunity_status account),
       a_sow_status := set_column (au_sow_status account_data) (a_sow_status account),
       a_project_status := set_column (au_project_status account_data) (a_project_status account),
       a_client_partner := set_column (au_client_partner account_data) (a_client_partner account),
       a_proposal_anchor := set_column (au_proposal_anchor account_data) (a_proposal_anchor account),
       a_delivery_partner :=
         set_column (au_delivery_partner account_data) (a_delivery_partner account),
       a_comment := set_column (au_comment account_data) (a_comment account),
       a_last_updated_by := user_id,
       a_updated_on := today\<rparr>"

text \<open>
  \<open>None\<close> is the source's \<^verbatim>\<open>return None\<close> for an id that is absent. The commit is an
  \<^verbatim>\<open>UPDATE accounts SET ... WHERE id = ?\<close>; the row returned is the one read back.
\<close>

definition update_account ::
  "(string \<Rightarrow> date option) \<Rightarrow> database \<Rightarrow> string \<Rightarrow> AccountUpdate \<Rightarrow> string \<Rightarrow> datetime
     \<Rightarrow> (error + AccountModel option) \<times> database" where
  "update_account strptime db account_id account_data user_id t_now =
     (case get_account_by_id db account_id of
        None \<Rightarrow> (Inr None, db)
      | Some account \<Rightarrow>
        (case convert_date strptime (au_revised_start_date account_data) of
           Inl e \<Rightarrow> (Inl e, db)
         | Inr revised_start \<Rightarrow>
        (case convert_date strptime (au_planned_start_date account_data) of
           Inl e \<Rightarrow> (Inl e, db)
         | Inr planned_start \<Rightarrow>
        (case convert_date strptime (au_planned_end_date account_data) of
           Inl e \<Rightarrow> (Inl e, db)
         | Inr planned_end \<Rightarrow>
        (let today = dt_date t_now;
             upd = apply_account_update account_data revised_start planned_start planned_end
                     user_id today
         in if bindable revised_start \<and> bindable planned_start \<and> bindable planned_end then
              (Inr (Some (upd account)),
               db\<lparr>accounts := map (\<lambda>a. if a_id a = a_id account then upd a else a) (accounts db)\<rparr>)
            else (Inl StatementError, db))))))"

text \<open>\<^verbatim>\<open>db.delete(account); db.commit()\<close> is \<^verbatim>\<open>DELETE FROM accounts WHERE id = ?\<close>.\<close>

definition delete_account :: "database \<Rightarrow> string \<Rightarrow> bool \<times> database" where
  "delete_account db account_id =
     (case get_account_by_id db account_id of
        None \<Rightarrow> (False, db)
      | Some account \<Rightarrow>
          (let demands_count = length (filter (\<lambda>d. d_account_id d = account_id) (demands db))
           in if demands_count > 0 then (False, db)
              else (True, db\<lparr>accounts := filter (\<lambda>a. a_id a \<noteq> a_id account) (accounts db)\<rparr>)))"

section \<open>Demand service\<close>

definition get_all_demands :: "database \<Rightarrow> DemandModel list" where
  "get_all_demands db = demands db"

definition get_demand_by_id :: "database \<Rightarrow> string \<Rightarrow> DemandModel option" where
  "get_demand_by_id db demand_id = find (\<lambda>d. d_id d = demand_id) (demands db)"

definition get_demands_by_account :: "database \<Rightarrow> string \<Rightarrow> DemandModel list" where
  "get_demands_by_account db account_id = filter (\<lambda>d. d_account_id d = account_id) (demands db)"

text \<open>
  \<^verbatim>\<open>sno\<close> is an integer primary key that the database assigns on insert: one more than
  the largest in the table. A row that is constructed but not yet flushed has none; the
  model writes 0 there (assigned numbers start at 1).
\<close>

definition next_sno :: "database \<Rightarrow> nat" where
  "next_sno db = Suc (fold max (map d_sno (demands db)) 0)"

fun assign_sno :: "nat \<Rightarrow> DemandModel list \<Rightarrow> DemandModel list" where
  "assign_sno n [] = []"
| "assign_sno n (r # rs) = r\<lparr>d_sno := n\<rparr> # assign_sno (Suc n) rs"

text \<open>
  \<^verbatim>\<open>db.add(row)\<close> for each row, then one \<^verbatim>\<open>db.commit()\<close>, then \<^verbatim>\<open>db.refresh(row)\<close>: the
  rows are inserted together, or none is when an id is already taken
  (\<^verbatim>\<open>unique=True\<close> on \<^verbatim>\<open>demands.id\<close>). The rows returned are the stored ones.
\<close>

definition add_demands :: "database \<Rightarrow> DemandModel list \<Rightarrow> error + DemandModel list \<times> database" where
  "add_demands db rows =
     (if distinct (map d_id rows) \<and> list_all (\<lambda>r. d_id r \<notin> set (map d_id (demands db))) rows then
        (let stored = assign_sno (next_sno db) rows
         in Inr (stored, db\<lparr>demands := demands db @ stored\<rparr>))
      else Inl IntegrityError)"

text \<open>
  The commit binds the two integers of the row to the \<^verbatim>\<open>INSERT\<close> before the database
  sees it: an integer outside 64 bits raises \<^verbatim>\<open>OverflowError\<close> and no row is stored.
  \<^verbatim>\<open>db.refresh(demand)\<close> reads the inserted row back: the row as constructed, with the
  \<^verbatim>\<open>sno\<close> the insert assigned.
\<close>

definition create_demand ::
  "(string \<Rightarrow> date option) \<Rightarrow> database \<Rightarrow> DemandCreate \<Rightarrow> string \<Rightarrow> datetime \<Rightarrow> datetime
     \<Rightarrow> (error + DemandModel) \<times> database" where
  "create_demand strptime db demand_data user_id t_id t_now =
     (case get_account_by_id db (dc_account_id demand_data) of
        None \<Rightarrow> (Inl (HTTPException 404 ''Referenced account not found''), db)
      | Some account \<Rightarrow>
        (let new_id = ''DEM-'' @ strftime t_id;
             now = dt_date t_now
         in case to_date strptime (dc_original_start_date demand_data) of
              Inl e \<Rightarrow> (Inl e, db)
            | Inr original_start \<Rightarrow>
           (case to_date strptime (dc_allocation_end_date demand_data) of
              Inl e \<Rightarrow> (Inl e, db)
            | Inr allocation_end \<Rightarrow>
           (let demand = \<lparr>
                  d_sno = 0,
                  d_id = new_id,
                  d_account_id = dc_account_id demand_data,
                  d_project = Some (dc_project demand_data),
                  d_role = Some (dc_role demand_data),
                  d_role_code = Some (dc_role_code demand_data),
                  d_location = Some (dc_location demand_data),
                  d_revised = dc_revised demand_data,
                  d_original_start_date = original_start,
                  d_allocation_end_date = allocation_end,
                  d_allocation_percentage = Some (dc_allocation_percentage demand_data),
                  d_probability = Some (dc_probability demand_data),
                  d_status = Some (dc_status demand_data),
                  d_resource_mapped = dc_resource_mapped demand_data,
                  d_comment = dc_comment demand_data,
                  d_last_updated_by = user_id,
                  d_updated_on = now,
                  d_added_by = user_id,
                  d_added_on = now,
                  d_start_month = Some (dc_start_month demand_data)\<rparr>
            in if sqlite_integer (dc_allocation_percentage demand_data)
                  \<and> sqlite_integer (dc_probability demand_data) then
                 (case add_demands db [demand] of
                    Inl e \<Rightarrow> (Inl e, db)
                  | Inr (stored, db') \<Rightarrow> (Inr (demand\<lparr>d_sno := next_sno db\<rparr>), db'))
               else (Inl OverflowError, db)))))"

text \<open>
  \<^verbatim>\<open>if 'account_id' in update_data: account = ...filter(AccountModel.id ==
  update_data['account_id']).first(); if not account: raise HTTPException(404, ...)\<close>.
  A comparison with \<^verbatim>\<open>None\<close> selects no row. The result is the account id to write, if
  the key is present.
\<close>

definition check_account_id :: "database \<Rightarrow> string option field \<Rightarrow> error + string field" where
  "check_account_id db f =
     (case f of
        Unset \<Rightarrow> Inr Unset
      | Provided None \<Rightarrow> Inl (HTTPException 404 ''Referenced account not found'')
      | Provided (Some account_id) \<Rightarrow>
          (case get_account_by_id db account_id of
             None \<Rightarrow> Inl (HTTPException 404 ''Referenced account not found'')
           | Some account \<Rightarrow> Inr (Provided account_id)))"

definition apply_demand_update ::
  "DemandUpdate \<Rightarrow> string field \<Rightarrow> date_value field \<Rightarrow> date_value field \<Rightarrow> string \<Rightarrow> date
     \<Rightarrow> DemandModel \<Rightarrow> DemandModel" where
  "apply_demand_update demand_data account_id original_start allocation_end user_id today demand =
     demand\<lparr>
       d_account_id := set_column account_id (d_account_id demand),
       d_project := set_column (du_project demand_data) (d_project demand),
       d_role := set_column (du_role demand_data) (d_role demand),
       d_role_code := set_column (du_role_code demand_data) (d_role_code demand),
       d_location := set_column (du_location demand_data) (d_location demand),
       d_revised := set_column (du_revised demand_data) (d_revised demand),
       d_original_start_date := set_date_column original_start (d_original_start_date demand),
       d_allocation_end_date := set_date_column allocation_end (d_allocation_end_date demand),
       d_allocation_percentage :=
         set_column (du_allocation_percentage demand_data) (d_allocation_percentage demand),
       d_probability := set_column (du_probability demand_data) (d_probability demand),
       d_status := set_column (du_status demand_data) (d_status demand),
       d_resource_mapped := set_column (du_resource_mapped demand_data) (d_resource_mapped demand),
       d_comment := set_column (du_comment demand_data) (d_comment demand),
       d_start_month := set_column (du_start_month demand_data) (d_start_month demand),
       d_last_updated_by := user_id,
       d_updated_on := today\<rparr>"

text \<open>
  An integer the update writes is bound to the \<^verbatim>\<open>UPDATE\<close> like the integers of an insert.
\<close>

fun bindable_integer :: "int option field \<Rightarrow> bool" where
  "bindable_integer (Provided (Some v)) = sqlite_integer v"
| "bindable_integer f = True"

text \<open>
  \<^verbatim>\<open>setattr\<close> puts the values of the request into the row object as they are; the
  commit is an \<^verbatim>\<open>UPDATE demands SET ... WHERE sno = ?\<close>. Its parameters are first converted
  by their column types (a \<^verbatim>\<open>Date\<close> that is a string raises there) and then bound by
  the driver (an integer outside 64 bits raises there); in both cases nothing is stored.
\<close>

definition update_demand ::
  "(string \<Rightarrow> date option) \<Rightarrow> database \<Rightarrow> string \<Rightarrow> DemandUpdate \<Rightarrow> string \<Rightarrow> datetime
     \<Rightarrow> (error + DemandModel option) \<times> database" where
  "update_demand strptime db demand_id demand_data user_id t_now =
     (case get_demand_by_id db demand_id of
        None \<Rightarrow> (Inr None, db)
      | Some demand \<Rightarrow>
        (case check_account_id db (du_account_id demand_data) of
           Inl e \<Rightarrow> (Inl e, db)
         | Inr account_id \<Rightarrow>
        (case convert_date strptime (du_original_start_date demand_data) of
           Inl e \<Rightarrow> (Inl e, db)
         | Inr original_start \<Rightarrow>
        (case convert_date strptime (du_allocation_end_date demand_data) of
           Inl e \<Rightarrow> (Inl e, db)
         | Inr allocation_end \<Rightarrow>
        (let today = dt_date t_now;
             upd = apply_demand_update demand_data account_id original_start allocation_end
                     user_id today
         in if bindable original_start \<and> bindable allocation_end then
              if bindable_integer (du_allocation_percentage demand_data)
                 \<and> bindable_integer (du_probability demand_data) then
                (Inr (Some (upd demand)),
                 db\<lparr>demands := map (\<lambda>d. if d_sno d = d_sno demand then upd d else d) (demands db)\<rparr>)
              else (Inl OverflowError, db)
            else (Inl StatementError, db))))))"

text \<open>\<^verbatim>\<open>db.delete(demand); db.commit()\<close> is \<^verbatim>\<open>DELETE FROM demands WHERE sno = ?\<close>.\<close>

definition delete_demand :: "database \<Rightarrow> string \<Rightarrow> bool \<times> database" where
  "delete_demand db demand_id =
     (case get_demand_by_id db demand_id of
        None \<Rightarrow> (False, db)
      | Some demand \<Rightarrow>
          (True, db\<lparr>demands := filter (\<lambda>d. d_sno d \<noteq> d_sno demand) (demands db)\<rparr>))"

text \<open>
  The body of the loop of \<^verbatim>\<open>clone_demand\<close>: the row built in iteration \<open>i\<close>, whose id is
  formatted from the clock reading of that iteration.
\<close>

definition clone_id :: "datetime \<Rightarrow> nat \<Rightarrow> string" where
  "clone_id t i = ''DEM-CLONE-'' @ strftime t @ ''-'' @ str_nat i"

definition clone_row :: "DemandModel \<Rightarrow> string \<Rightarrow> string \<Rightarrow> date \<Rightarrow> DemandModel" where
  "clone_row source_demand new_id user_id now = \<lparr>
     d_sno = 0,
     d_id = new_id,
     d_account_id = d_account_id source_demand,
     d_project = d_project source_demand,
     d_role = d_role source_demand,
     d_role_code = d_role_code source_demand,
     d_location = d_location source_demand,
     d_revised = d_revised source_demand,
     d_original_start_date = d_original_start_date source_demand,
     d_allocation_end_date = d_allocation_end_date source_demand,
     d_allocation_percentage = d_allocation_percentage source_demand,
     d_probability = d_probability source_demand,
     d_status = d_status source_demand,
     d_resource_mapped = d_resource_mapped source_demand,
     d_comment = d_comment source_demand,
     d_last_updated_by = user_id,
     d_updated_on = now,
     d_added_by = user_id,
     d_added_on = now,
     d_start_month = d_start_month source_demand\<rparr>"

text \<open>
  \<open>count\<close> is a Python \<^verbatim>\<open>int\<close>; \<^verbatim>\<open>range(count)\<close> is empty when it is not positive.
  \<open>t_now\<close> is the clock reading before the loop, \<open>stamps i\<close> the reading of iteration \<open>i\<close>.
\<close>

definition clone_demand ::
  "database \<Rightarrow> string \<Rightarrow> int \<Rightarrow> string \<Rightarrow> datetime \<Rightarrow> (nat \<Rightarrow> datetime)
     \<Rightarrow> (error + DemandModel list) \<times> database" where
  "clone_demand db demand_id count user_id t_now stamps =
     (case get_demand_by_id db demand_id of
        None \<Rightarrow> (Inl (HTTPException 404 ''Demand not found''), db)
      | Some source_demand \<Rightarrow>
        (let now = dt_date t_now;
             clones = map (\<lambda>i. clone_row source_demand (clone_id (stamps i) i) user_id now)
                        [0..<nat count]
         in case add_demands db clones of
              Inl e \<Rightarrow> (Inl e, db)
            | Inr (stored, db') \<Rightarrow> (Inr stored, db')))"

section \<open>Dashboard service: search\<close>

text \<open>
  \<^verbatim>\<open>Column.contains(query)\<close> is SQLAlchemy's operator for
  \<^verbatim>\<open>column LIKE '%' || query || '%'\<close>, with no escape character, and the engine is SQLite
  (\<^verbatim>\<open>DATABASE_URL\<close>). Strings are the UTF-8 bytes of the Python strings.

  SQLite's \<^verbatim>\<open>LIKE\<close> reads the pattern and the value as C strings, that is up to their first
  NUL byte, one character at a time: a byte from \<^verbatim>\<open>0xC0\<close> on starts a character that runs
  over the continuation bytes (\<^verbatim>\<open>0x80\<close> to \<^verbatim>\<open>0xBF\<close>) that follow, any other byte is a
  character by itself. \<^verbatim>\<open>%\<close> in the pattern matches any run of characters, \<^verbatim>\<open>_\<close> any one
  character, and any other character matches itself or, for an ASCII letter, its other
  case. \<open>like pattern s\<close> is that match.
\<close>

definition ascii_lower :: "char \<Rightarrow> char" where
  "ascii_lower c =
     (let n = of_char c :: nat in if 65 \<le> n \<and> n \<le> 90 then char_of (n + 32) else c)"


definition continuation_byte :: "char \<Rightarrow> bool" where
  "continuation_byte b = (128 \<le> (of_char b :: nat) \<and> (of_char b :: nat) < 192)"

text \<open>The string after its first character.\<close>

fun utf8_rest :: "string \<Rightarrow> string" where
  "utf8_rest [] = []"
| "utf8_rest (c # cs) =
     (if 192 \<le> (of_char c :: nat) then dropWhile continuation_byte cs else cs)"

function (sequential) like :: "string \<Rightarrow> string \<Rightarrow> bool" where
  "like [] s = (s = [])"
| "like (p # ps) [] = (p = CHR ''%'' \<and> like ps [])"
| "like (p # ps) (c # cs) =
     (if p = CHR ''%'' then like ps (c # cs) \<or> like (p # ps) (utf8_rest (c # cs))
      else if p = CHR ''_'' then like ps (utf8_rest (c # cs))
      else ascii_lower p = ascii_lower c \<and> like ps cs)"
  by pat_completeness auto
termination
  by (relation "measure (\<lambda>(p, s). length p + length s)")
    (auto simp: less_Suc_eq_le intro!: le_SucI length_dropWhile_le)







section \<open>Calls to the services\<close>

text \<open>
  The write operations of the two services as values, with the arguments and clock
  readings of each call; \<open>perform\<close> is the database after a call, whether it returned or
  raised. A database is reachable when a list of calls leads to it from the empty one.
\<close>

datatype request =
    CreateAccount AccountCreate string datetime datetime
  | UpdateAccount string AccountUpdate string datetime
  | DeleteAccount string
  | CreateDemand DemandCreate string datetime datetime
  | UpdateDemand string DemandUpdate string datetime
  | DeleteDemand string
  | CloneDemand string int string datetime "nat \<Rightarrow> datetime"

fun perform :: "(string \<Rightarrow> date option) \<Rightarrow> database \<Rightarrow> request \<Rightarrow> database" where
  "perform strptime db (CreateAccount account_data user_id t_id t_now) =
     snd (create_account strptime db account_data user_id t_id t_now)"
| "perform strptime db (UpdateAccount account_id account_data user_id t_now) =
     snd (update_account strptime db account_id account_data user_id t_now)"
| "perform strptime db (DeleteAccount account_id) = snd (delete_account db account_id)"
| "perform strptime db (CreateDemand demand_data user_id t_id t_now) =
     snd (create_demand strptime db demand_data user_id t_id t_now)"
| "perform strptime db (UpdateDemand demand_id demand_data user_id t_now) =
     snd (update_demand strptime db demand_id demand_data user_id t_now)"
| "perform strptime db (DeleteDemand demand_id) = snd (delete_demand db demand_id)"
| "perform strptime db (CloneDemand demand_id count user_id t_now stamps) =
     snd (clone_demand db demand_id count user_id t_now stamps)"

text \<open>Every demand carries the id of a stored account.\<close>

definition referential_integrity :: "database \<Rightarrow> bool" where
  "referential_integrity db =
     list_all (\<lambda>d. d_account_id d \<in> set (map a_id (accounts db))) (demands db)"

section \<open>What a query matches\<close>












section \<open>Dates an update accepts\<close>

text \<open>
  The date fields with which an update goes through: absent, \<^verbatim>\<open>None\<close>, or a non-empty
  string that \<open>strptime\<close> parses. (A string that does not parse raises \<^verbatim>\<open>ValueError\<close>; the
  empty string is kept as a string and refused by the flush.)
\<close>

definition valid_date_field :: "(string \<Rightarrow> date option) \<Rightarrow> string option field \<Rightarrow> bool" where
  "valid_date_field strptime f =
     (case f of
        Unset \<Rightarrow> True
      | Provided None \<Rightarrow> True
      | Provided (Some s) \<Rightarrow> s \<noteq> [] \<and> strptime s \<noteq> None)"

section \<open>Sample data\<close>

text \<open>Rows and requests used to instantiate the theorems below at concrete inputs.\<close>

definition sample_date :: date where
  "sample_date = Date 2024 1 5"

definition sample_account :: "string \<Rightarrow> AccountModel" where
  "sample_account account_id = \<lparr>
     a_id = account_id,
     a_client = Some ''Acme'',
     a_project = Some ''Portal'',
     a_vertical = Some ''Retail'',
     a_geo = Some ''EU'',
     a_start_month = Some ''Jan'',
     a_revised_start_date = Some (Date 2024 2 1),
     a_planned_start_date = None,
     a_planned_end_date = None,
     a_probability = Some 75,
     a_opportunity_status = Some ''Open'',
     a_sow_status = Some ''Draft'',
     a_project_status = Some ''New'',
     a_client_partner = Some ''Ann'',
     a_proposal_anchor = Some ''Bob'',
     a_delivery_partner = Some ''Cid'',
     a_comment = None,
     a_last_updated_by = ''system@example.com'',
     a_updated_on = sample_date,
     a_added_by = ''system@example.com'',
     a_added_on = sample_date\<rparr>"

definition sample_demand :: "nat \<Rightarrow> string \<Rightarrow> string \<Rightarrow> DemandModel" where
  "sample_demand sno demand_id account_id = \<lparr>
     d_sno = sno,
     d_id = demand_id,
     d_account_id = account_id,
     d_project = Some ''Portal'',
     d_role = Some ''Engineer'',
     d_role_code = Some ''E1'',
     d_location = Some ''Pune'',
     d_revised = None,
     d_original_start_date = Some (Date 2024 3 1),
     d_allocation_end_date = None,
     d_allocation_percentage = Some 100,
     d_probability = Some 90,
     d_status = Some ''Open'',
     d_resource_mapped = None,
     d_comment = None,
     d_last_updated_by = ''system@example.com'',
     d_updated_on = sample_date,
     d_added_by = ''system@example.com'',
     d_added_on = sample_date,
     d_start_month = Some ''Mar''\<rparr>"

text \<open>Two accounts, the first with one demand, the second with none.\<close>

definition sample_db :: database where
  "sample_db = \<lparr>
     accounts = [sample_account ''ACC-1'', sample_account ''ACC-2''],
     demands = [sample_demand 1 ''DEM-1'' ''ACC-1'']\<rparr>"

text \<open>A parser that knows one date, and sample requests, for the concrete instances.\<close>

definition sample_strptime :: "string \<Rightarrow> date option" where
  "sample_strptime s = (if s = ''2024-03-01'' then Some (Date 2024 3 1) else None)"

definition sample_clock :: datetime where
  "sample_clock = DateTime (Date 2024 1 5) 9 3 7"

definition sample_demand_create :: "string \<Rightarrow> DemandCreate" where
  "sample_demand_create account_id = \<lparr>
     dc_account_id = account_id,
     dc_project = ''Portal'',
     dc_role = ''Engineer'',
     dc_role_code = ''E1'',
     dc_location = ''Pune'',
     dc_revised = None,
     dc_original_start_date = Some ''2024-03-01'',
     dc_allocation_end_date = None,
     dc_allocation_percentage = 100,
     dc_probability = 90,
     dc_status = ''Open'',
     dc_resource_mapped = None,
     dc_comment = None,
     dc_start_month = ''Mar''\<rparr>"

text \<open>The update request that sets nothing.\<close>

definition no_demand_update :: DemandUpdate where
  "no_demand_update = \<lparr>
     du_account_id = Unset,
     du_project = Unset,
     du_role = Unset,
     du_role_code = Unset,
     du_location = Unset,
     du_revised = Unset,
     du_original_start_date = Unset,
     du_allocation_end_date = Unset,
     du_allocation_percentage = Unset,
     du_probability = Unset,
     du_status = Unset,
     du_resource_mapped = Unset,
     du_comment = Unset,
     du_start_month = Unset\<rparr>"

definition sample_account_create :: AccountCreate where
  "sample_account_create = \<lparr>
     ac_client = ''Acme'',
     ac_project = ''Portal'',
     ac_vertical = ''Retail'',
     ac_geo = ''EU'',
     ac_start_month = ''Jan'',
     ac_revised_start_date = Some ''2024-03-01'',
     ac_planned_start_date = None,
     ac_planned_end_date = Some '''',
     ac_probability = SEVENTY_FIVE,
     ac_opportunity_status = ''Open'',
     ac_sow_status = ''Draft'',
     ac_project_status = ''New'',
     ac_client_partner = ''Ann'',
     ac_proposal_anchor = ''Bob'',
     ac_delivery_partner = ''Cid'',
     ac_comment = None\<rparr>"

text \<open>The update request that sets nothing.\<close>

definition no_account_update :: AccountUpdate where
  "no_account_update = \<lparr>
     au_client = Unset,
     au_project = Unset,
     au_vertical = Unset,
     au_geo = Unset,
     au_start_month = Unset,
     au_revised_start_date = Unset,
     au_planned_start_date = Unset,
     au_planned_end_date = Unset,
     au_probability = Unset,
     au_opportunity_status = Unset,
     au_sow_status = Unset,
     au_project_status = Unset,
     au_client_partner = Unset,
     au_proposal_anchor = Unset,
     au_delivery_partner = Unset,
     au_comment = Unset\<rparr>"

text \<open>A run of calls: an account, a demand of it, two clones, a refused delete.\<close>

definition sample_requests :: "request list" where
  "sample_requests =
     [CreateAccount sample_account_create ''system@example.com'' sample_clock sample_clock,
      CreateDemand (sample_demand_create ''ACC-20240105090307'') ''system@example.com''
        sample_clock sample_clock,
      CloneDemand ''DEM-20240105090307'' 2 ''system@example.com'' sample_clock (\<lambda>i. sample_clock),
      DeleteAccount ''ACC-20240105090307'']"


section \<open>Lookups in a table\<close>

lemma find_key_filter:
  "find (\<lambda>a. f a = x) (filter (\<lambda>a. f a \<noteq> y) xs) =
     (if x = y then None else find (\<lambda>a. f a = x) xs)"
  by (induction xs) auto

lemma find_key_Some: "find (\<lambda>a. f a = x) xs = Some a \<Longrightarrow> f a = x \<and> a \<in> set xs"
  by (induction xs) (auto split: if_splits)

lemma find_key_None: "(find (\<lambda>a. f a = x) xs = None) = (x \<notin> f ` set xs)"
  by (induction xs) auto

section \<open>Account deletion\<close>

text \<open>
  C2. \<open>delete_account\<close> returns \<open>False\<close> and leaves the database as it is when the id is
  absent or when a demand references the account. When the account exists and no demand
  references it, it returns \<open>True\<close>; afterwards the account is not found by
  \<open>get_account_by_id\<close>, every other account is still in the table (the table is the old one
  without the rows of that id), and the demands are the same.
\<close>

theorem delete_account_guarded:
  "(get_account_by_id db account_id = None \<or> get_demands_by_account db account_id \<noteq> []
      \<longrightarrow> delete_account db account_id = (False, db))
   \<and> (get_account_by_id db account_id \<noteq> None \<and> get_demands_by_account db account_id = []
      \<longrightarrow> (\<exists>db'. delete_account db account_id = (True, db')
             \<and> get_account_by_id db' account_id = None
             \<and> (\<forall>other. other \<noteq> account_id
                   \<longrightarrow> get_account_by_id db' other = get_account_by_id db other)
             \<and> accounts db' = filter (\<lambda>a. a_id a \<noteq> account_id) (accounts db)
             \<and> demands db' = demands db))"
proof (intro conjI impI)
  assume "get_account_by_id db account_id = None \<or> get_demands_by_account db account_id \<noteq> []"
  then show "delete_account db account_id = (False, db)"
    by (auto simp: delete_account_def get_demands_by_account_def split: option.splits)
next
  assume h: "get_account_by_id db account_id \<noteq> None \<and> get_demands_by_account db account_id = []"
  then obtain account where a: "get_account_by_id db account_id = Some account"
    by auto
  then have id: "a_id account = account_id"
    by (auto simp: get_account_by_id_def dest: find_key_Some)
  let ?db = "db\<lparr>accounts := filter (\<lambda>a. a_id a \<noteq> account_id) (accounts db)\<rparr>"
  have run: "delete_account db account_id = (True, ?db)"
    using h a id by (simp add: delete_account_def get_demands_by_account_def)
  have gone: "get_account_by_id ?db account_id = None"
    by (simp add: get_account_by_id_def find_key_filter)
  have others: "\<forall>other. other \<noteq> account_id
      \<longrightarrow> get_account_by_id ?db other = get_account_by_id db other"
    by (simp add: get_account_by_id_def find_key_filter)
  show "\<exists>db'. delete_account db account_id = (True, db')
             \<and> get_account_by_id db' account_id = None
             \<and> (\<forall>other. other \<noteq> account_id
                   \<longrightarrow> get_account_by_id db' other = get_account_by_id db other)
             \<and> accounts db' = filter (\<lambda>a. a_id a \<noteq> account_id) (accounts db)
             \<and> demands db' = demands db"
    using run gone others by (intro exI[of _ ?db]) simp
qed

text \<open>
  At the sample database: the account with a demand and an absent id are refused, the
  account without demands is deleted and the other account stays.
\<close>

theorem delete_account_guarded_witness:
  "get_demands_by_account sample_db ''ACC-1'' \<noteq> []
   \<and> delete_account sample_db ''ACC-1'' = (False, sample_db)
   \<and> get_account_by_id sample_db ''ACC-9'' = None
   \<and> delete_account sample_db ''ACC-9'' = (False, sample_db)
   \<and> get_account_by_id sample_db ''ACC-2'' \<noteq> None
   \<and> get_demands_by_account sample_db ''ACC-2'' = []
   \<and> (\<exists>db'. delete_account sample_db ''ACC-2'' = (True, db')
          \<and> get_account_by_id db' ''ACC-2'' = None
          \<and> get_account_by_id db' ''ACC-1'' = Some (sample_account ''ACC-1'')
          \<and> demands db' = demands sample_db)"
proof -
  have linked: "get_demands_by_account sample_db ''ACC-1'' \<noteq> []"
    by (simp add: get_demands_by_account_def sample_db_def sample_demand_def)
  have absent: "get_account_by_id sample_db ''ACC-9'' = None"
    by (simp add: get_account_by_id_def sample_db_def sample_account_def)
  have present: "get_account_by_id sample_db ''ACC-2'' \<noteq> None"
    by (simp add: get_account_by_id_def sample_db_def sample_account_def)
  have free: "get_demands_by_account sample_db ''ACC-2'' = []"
    by (simp add: get_demands_by_account_def sample_db_def sample_demand_def)
  have first: "get_account_by_id sample_db ''ACC-1'' = Some (sample_account ''ACC-1'')"
    by (simp add: get_account_by_id_def sample_db_def sample_account_def)
  from delete_account_guarded [of sample_db "''ACC-1''"] linked
  have r1: "delete_account sample_db ''ACC-1'' = (False, sample_db)" by blast
  from delete_account_guarded [of sample_db "''ACC-9''"] absent
  have r2: "delete_account sample_db ''ACC-9'' = (False, sample_db)" by blast
  from delete_account_guarded [of sample_db "''ACC-2''"] present free
  obtain db' where d: "delete_account sample_db ''ACC-2'' = (True, db')"
      "get_account_by_id db' ''ACC-2'' = None"
      "\<forall>other. other \<noteq> ''ACC-2'' \<longrightarrow> get_account_by_id db' other = get_account_by_id sample_db other"
      "demands db' = demands sample_db"
    by blast
  from d(3) first have "get_account_by_id db' ''ACC-1'' = Some (sample_account ''ACC-1'')"
    by simp
  with d linked absent present free r1 r2 show ?thesis by blast
qed

section \<open>Demands that reference a missing account\<close>

text \<open>
  C7. When the \<open>account_id\<close> of the request is the id of no stored account,
  \<open>create_demand\<close> raises the 404 \<open>Referenced account not found\<close> and the database, so
  the table of demands, is the one before the call.
\<close>

theorem create_demand_account_not_found:
  assumes "dc_account_id demand_data \<notin> a_id ` set (accounts db)"
  shows "create_demand strptime db demand_data user_id t_id t_now =
           (Inl (HTTPException 404 ''Referenced account not found''), db)"
proof -
  from assms have "get_account_by_id db (dc_account_id demand_data) = None"
    by (simp add: get_account_by_id_def find_key_None)
  then show ?thesis
    by (simp add: create_demand_def)
qed

theorem create_demand_account_not_found_witness:
  "''ACC-9'' \<notin> a_id ` set (accounts sample_db)
   \<and> create_demand sample_strptime sample_db (sample_demand_create ''ACC-9'') ''system@example.com''
         sample_clock sample_clock =
       (Inl (HTTPException 404 ''Referenced account not found''), sample_db)"
proof -
  have absent: "dc_account_id (sample_demand_create ''ACC-9'') \<notin> a_id ` set (accounts sample_db)"
    by (simp add: sample_demand_create_def sample_db_def sample_account_def)
  then have "''ACC-9'' \<notin> a_id ` set (accounts sample_db)"
    by (simp add: sample_demand_create_def)
  with create_demand_account_not_found [OF absent] show ?thesis
    by simp
qed

text \<open>
  C6. For a stored demand, an update whose \<open>account_id\<close> is present and is the id of no
  stored account (the value \<open>None\<close> included) raises the 404
  \<open>Referenced account not found\<close>, whatever else the request holds; the database is the one
  before the call, so the demand is read back with every column as it was.
\<close>

theorem update_demand_account_not_found:
  assumes "get_demand_by_id db demand_id = Some demand"
      and "du_account_id demand_data = Provided v"
      and "v \<notin> Some ` a_id ` set (accounts db)"
  shows "update_demand strptime db demand_id demand_data user_id t_now =
           (Inl (HTTPException 404 ''Referenced account not found''), db)
         \<and> get_demand_by_id (snd (update_demand strptime db demand_id demand_data user_id t_now))
             demand_id = Some demand"
proof -
  have "check_account_id db (Provided v) = Inl (HTTPException 404 ''Referenced account not found'')"
  proof (cases v)
    case None
    then show ?thesis by (simp add: check_account_id_def)
  next
    case (Some account_id)
    with assms(3) have "account_id \<notin> a_id ` set (accounts db)" by auto
    then have "get_account_by_id db account_id = None"
      by (simp add: get_account_by_id_def find_key_None)
    with Some show ?thesis by (simp add: check_account_id_def)
  qed
  with assms(1,2) show ?thesis
    by (simp add: update_demand_def)
qed

theorem update_demand_account_not_found_witness:
  "get_demand_by_id sample_db ''DEM-1'' = Some (sample_demand 1 ''DEM-1'' ''ACC-1'')
   \<and> Some ''ACC-9'' \<notin> Some ` a_id ` set (accounts sample_db)
   \<and> update_demand sample_strptime sample_db ''DEM-1''
        (no_demand_update\<lparr>du_account_id := Provided (Some ''ACC-9''), du_comment := Provided (Some ''x'')\<rparr>)
        ''system@example.com'' sample_clock =
       (Inl (HTTPException 404 ''Referenced account not found''), sample_db)"
proof -
  have stored: "get_demand_by_id sample_db ''DEM-1'' = Some (sample_demand 1 ''DEM-1'' ''ACC-1'')"
    by (simp add: get_demand_by_id_def sample_db_def sample_demand_def)
  have given: "du_account_id (no_demand_update\<lparr>du_account_id := Provided (Some ''ACC-9''),
      du_comment := Provided (Some ''x'')\<rparr>) = Provided (Some ''ACC-9'')"
    by simp
  have absent: "Some ''ACC-9'' \<notin> Some ` a_id ` set (accounts sample_db)"
    by (simp add: sample_db_def sample_account_def)
  from update_demand_account_not_found [OF stored given absent] stored absent
  show ?thesis by simp
qed

section \<open>Decimal numerals and clone ids\<close>

lemma digit_char_inj: "a < 10 \<Longrightarrow> b < 10 \<Longrightarrow> digit_char a = digit_char b \<Longrightarrow> a = b"
proof -
  assume a: "a < 10" and b: "b < 10" and e: "digit_char a = digit_char b"
  from e have "(of_char (char_of (48 + a)) :: nat) = of_char (char_of (48 + b))"
    by (simp add: digit_char_def)
  then have "(48 + a) mod 256 = (48 + b) mod 256"
    by (simp only: of_char_of)
  with a b show "a = b" by simp
qed

lemma digit_char_not_dash: "n < 10 \<Longrightarrow> digit_char n \<noteq> CHR ''-''"
proof
  assume n: "n < 10" and e: "digit_char n = CHR ''-''"
  from e have "(of_char (char_of (48 + n)) :: nat) = of_char (CHR ''-'')"
    by (simp add: digit_char_def)
  then have "(48 + n) mod 256 = 45"
    by (simp only: of_char_of) simp
  with n show False by simp
qed

lemma str_nat_not_Nil: "str_nat n \<noteq> []"
  by (subst str_nat.simps) simp

lemma dash_notin_str_nat: "CHR ''-'' \<notin> set (str_nat n)"
proof (induction n rule: str_nat.induct)
  case (1 n)
  show ?case
  proof (cases "n < 10")
    case True
    then show ?thesis
      using digit_char_not_dash [of n] by (subst str_nat.simps) auto
  next
    case False
    then have "n mod 10 < 10" by simp
    with False "1" show ?thesis
      using digit_char_not_dash [of "n mod 10"] by (subst str_nat.simps) auto
  qed
qed

text \<open>Different numbers have different numerals.\<close>

lemma str_nat_inj: "str_nat n = str_nat m \<Longrightarrow> n = m"
proof (induction n arbitrary: m rule: str_nat.induct)
  case (1 n)
  show ?case
  proof (cases "n < 10")
    case n: True
    show ?thesis
    proof (cases "m < 10")
      case True
      with n "1.prems" show ?thesis
        by (simp add: str_nat.simps [of n] str_nat.simps [of m] digit_char_inj)
    next
      case False
      with n "1.prems" str_nat_not_Nil [of "m div 10"] show ?thesis
        by (simp add: str_nat.simps [of n] str_nat.simps [of m] Cons_eq_append_conv)
    qed
  next
    case n: False
    show ?thesis
    proof (cases "m < 10")
      case True
      with n "1.prems" str_nat_not_Nil [of "n div 10"] show ?thesis
        by (simp add: str_nat.simps [of n] str_nat.simps [of m] append_eq_Cons_conv)
    next
      case False
      with n "1.prems" have e: "str_nat (n div 10) = str_nat (m div 10)"
          and d: "digit_char (n mod 10) = digit_char (m mod 10)"
        by (simp_all add: str_nat.simps [of n] str_nat.simps [of m])
      from "1.IH" [OF n e] have "n div 10 = m div 10" .
      moreover from d have "n mod 10 = m mod 10"
        by (intro digit_char_inj) simp_all
      ultimately show ?thesis
        by (metis div_mult_mod_eq)
    qed
  qed
qed

text \<open>What follows the last occurrence of a character is determined by the whole string.\<close>

lemma suffix_after_last:
  assumes "xs @ c # ys = xs' @ c # ys'" and "c \<notin> set ys" and "c \<notin> set ys'"
  shows "ys = ys'"
proof -
  from assms(1) have "rev ys @ c # rev xs = rev ys' @ c # rev xs'"
    by (metis rev.simps(2) rev_append append_assoc append_Cons append_Nil)
  then have "takeWhile (\<lambda>x. x \<noteq> c) (rev ys @ c # rev xs) =
      takeWhile (\<lambda>x. x \<noteq> c) (rev ys' @ c # rev xs')"
    by simp
  moreover have "takeWhile (\<lambda>x. x \<noteq> c) (rev ys @ c # rev xs) = rev ys"
    using assms(2) by (auto simp: takeWhile_tail)
  moreover have "takeWhile (\<lambda>x. x \<noteq> c) (rev ys' @ c # rev xs') = rev ys'"
    using assms(3) by (auto simp: takeWhile_tail)
  ultimately show ?thesis by simp
qed

text \<open>
  The ids built in two iterations of the loop differ, whatever the clock reads: the
  index is what follows the last dash.
\<close>

lemma clone_id_inj: "clone_id t i = clone_id t' j \<Longrightarrow> i = j"
proof -
  assume "clone_id t i = clone_id t' j"
  then have "(''DEM-CLONE-'' @ strftime t) @ CHR ''-'' # str_nat i
           = (''DEM-CLONE-'' @ strftime t') @ CHR ''-'' # str_nat j"
    by (simp add: clone_id_def)
  then have "str_nat i = str_nat j"
    by (rule suffix_after_last) (rule dash_notin_str_nat)+
  then show "i = j" by (rule str_nat_inj)
qed

lemma distinct_clone_ids: "distinct (map (\<lambda>i. clone_id (stamps i) i) [0..<n])"
  by (auto simp: distinct_map inj_on_def dest: clone_id_inj)

section \<open>Inserting demands\<close>

lemma length_assign_sno: "length (assign_sno n rs) = length rs"
  by (induction rs arbitrary: n) auto

lemma nth_assign_sno: "i < length rs \<Longrightarrow> assign_sno n rs ! i = (rs ! i)\<lparr>d_sno := n + i\<rparr>"
proof (induction rs arbitrary: n i)
  case Nil
  then show ?case by simp
next
  case (Cons r rs)
  then show ?case by (cases i) simp_all
qed

lemma map_d_id_assign_sno: "map d_id (assign_sno n rs) = map d_id rs"
  by (induction rs arbitrary: n) auto

lemma map_d_account_id_assign_sno: "map d_account_id (assign_sno n rs) = map d_account_id rs"
  by (induction rs arbitrary: n) auto

lemma add_demands_Nil: "add_demands db [] = Inr ([], db)"
  by (simp add: add_demands_def)

lemma add_demands_fresh:
  assumes "distinct (map d_id rows)" and "\<forall>r \<in> set rows. d_id r \<notin> d_id ` set (demands db)"
  shows "add_demands db rows =
           Inr (assign_sno (next_sno db) rows,
                db\<lparr>demands := demands db @ assign_sno (next_sno db) rows\<rparr>)"
  using assms by (simp add: add_demands_def list_all_iff Let_def)

lemma add_demands_taken:
  assumes "r \<in> set rows" and "d_id r \<in> d_id ` set (demands db)"
  shows "add_demands db rows = Inl IntegrityError"
  using assms by (auto simp: add_demands_def list_all_iff Let_def)

lemma add_demands_cases:
  "add_demands db rows = Inl IntegrityError
   \<or> add_demands db rows =
       Inr (assign_sno (next_sno db) rows,
            db\<lparr>demands := demands db @ assign_sno (next_sno db) rows\<rparr>)"
  by (simp add: add_demands_def Let_def)

section \<open>Cloning a demand\<close>

lemma d_id_clone_row [simp]: "d_id (clone_row src new_id user_id now) = new_id"
  by (simp add: clone_row_def)

lemma d_account_id_clone_row [simp]:
  "d_account_id (clone_row src new_id user_id now) = d_account_id src"
  by (simp add: clone_row_def)

lemma find_key_append_left:
  "find (\<lambda>a. f a = x) xs = Some a \<Longrightarrow> find (\<lambda>a. f a = x) (xs @ ys) = Some a"
  by (induction xs) (auto split: if_splits)

text \<open>
  When none of the ids the loop builds is the id of a stored demand, \<open>clone_demand\<close>
  appends \<open>count\<close> rows, in the order of the loop: row \<open>i\<close> is \<open>clone_row\<close> of the source
  with the id of iteration \<open>i\<close>, the caller and the date of the reading before the loop,
  and the next free \<open>sno\<close>. The rows that were stored stay as they are, and the source is
  still found under its id.
\<close>

lemma clone_demand_fresh:
  assumes src: "get_demand_by_id db demand_id = Some source_demand"
      and fresh: "\<forall>i < nat count. clone_id (stamps i) i \<notin> d_id ` set (demands db)"
  shows "\<exists>stored. clone_demand db demand_id count user_id t_now stamps =
                     (Inr stored, db\<lparr>demands := demands db @ stored\<rparr>)
           \<and> length stored = nat count
           \<and> (\<forall>i < nat count. stored ! i =
                 (clone_row source_demand (clone_id (stamps i) i) user_id (dt_date t_now))
                   \<lparr>d_sno := next_sno db + i\<rparr>)
           \<and> distinct (map d_id stored)
           \<and> get_demand_by_id (db\<lparr>demands := demands db @ stored\<rparr>) demand_id =
               Some source_demand"
proof -
  let ?rows = "map (\<lambda>i. clone_row source_demand (clone_id (stamps i) i) user_id (dt_date t_now))
                 [0..<nat count]"
  let ?stored = "assign_sno (next_sno db) ?rows"
  have ids: "map d_id ?rows = map (\<lambda>i. clone_id (stamps i) i) [0..<nat count]"
    by simp
  have d: "distinct (map d_id ?rows)"
    by (simp only: ids distinct_clone_ids)
  moreover have "\<forall>r \<in> set ?rows. d_id r \<notin> d_id ` set (demands db)"
    using fresh by auto
  ultimately have "add_demands db ?rows = Inr (?stored, db\<lparr>demands := demands db @ ?stored\<rparr>)"
    by (rule add_demands_fresh)
  with src have "clone_demand db demand_id count user_id t_now stamps =
      (Inr ?stored, db\<lparr>demands := demands db @ ?stored\<rparr>)"
    by (simp add: clone_demand_def Let_def)
  moreover have "length ?stored = nat count"
    by (simp add: length_assign_sno)
  moreover have "\<forall>i < nat count. ?stored ! i =
      (clone_row source_demand (clone_id (stamps i) i) user_id (dt_date t_now))
        \<lparr>d_sno := next_sno db + i\<rparr>"
    by (simp add: nth_assign_sno)
  moreover have "distinct (map d_id ?stored)"
    using d by (simp only: map_d_id_assign_sno)
  moreover have "get_demand_by_id (db\<lparr>demands := demands db @ ?stored\<rparr>) demand_id =
      Some source_demand"
    using src by (simp add: get_demand_by_id_def find_key_append_left)
  ultimately show ?thesis by blast
qed

lemma clone_demand_zero:
  assumes "get_demand_by_id db demand_id = Some source_demand"
  shows "clone_demand db demand_id 0 user_id t_now stamps = (Inr [], db)"
  using assms by (simp add: clone_demand_def add_demands_Nil Let_def)

lemma sample_db_DEM_1:
  "get_demand_by_id sample_db ''DEM-1'' = Some (sample_demand 1 ''DEM-1'' ''ACC-1'')"
  by (simp add: get_demand_by_id_def sample_db_def sample_demand_def)

lemma sample_db_no_clones: "clone_id t i \<notin> d_id ` set (demands sample_db)"
  by (simp add: sample_db_def sample_demand_def clone_id_def)

text \<open>
  C10. Called with \<open>count = 0\<close> on a stored demand, \<open>clone_demand\<close> raises nothing, returns
  the empty list and leaves the database as it is. No bound on \<open>count\<close> is checked in the
  service: for any \<open>count\<close>, above 10 included, it stores \<open>count\<close> rows when the ids it
  builds are free.
\<close>

theorem clone_demand_count_unchecked:
  assumes "get_demand_by_id db demand_id = Some source_demand"
  shows "clone_demand db demand_id 0 user_id t_now stamps = (Inr [], db)
         \<and> ((\<forall>i < nat count. clone_id (stamps i) i \<notin> d_id ` set (demands db))
              \<longrightarrow> (\<exists>stored. clone_demand db demand_id count user_id t_now stamps =
                              (Inr stored, db\<lparr>demands := demands db @ stored\<rparr>)
                     \<and> length stored = nat count))"
proof (intro conjI impI)
  show "clone_demand db demand_id 0 user_id t_now stamps = (Inr [], db)"
    using assms by (rule clone_demand_zero)
next
  assume "\<forall>i < nat count. clone_id (stamps i) i \<notin> d_id ` set (demands db)"
  with assms clone_demand_fresh [of db demand_id source_demand count stamps user_id t_now]
  show "\<exists>stored. clone_demand db demand_id count user_id t_now stamps =
                    (Inr stored, db\<lparr>demands := demands db @ stored\<rparr>)
          \<and> length stored = nat count"
    by blast
qed

theorem clone_demand_count_unchecked_witness:
  "get_demand_by_id sample_db ''DEM-1'' = Some (sample_demand 1 ''DEM-1'' ''ACC-1'')
   \<and> clone_demand sample_db ''DEM-1'' 0 ''system@example.com'' sample_clock (\<lambda>i. sample_clock) =
       (Inr [], sample_db)
   \<and> (\<exists>stored. clone_demand sample_db ''DEM-1'' 11 ''system@example.com'' sample_clock
                  (\<lambda>i. sample_clock) =
                  (Inr stored, sample_db\<lparr>demands := demands sample_db @ stored\<rparr>)
          \<and> length stored = 11)"
proof -
  have fresh: "\<forall>i < nat 11. clone_id sample_clock i \<notin> d_id ` set (demands sample_db)"
    by (simp add: sample_db_no_clones)
  from clone_demand_count_unchecked [OF sample_db_DEM_1, of "''system@example.com''" sample_clock
      "\<lambda>i. sample_clock" 11] fresh sample_db_DEM_1
  show ?thesis by simp
qed

lemma clone_id_sample: "clone_id sample_clock 0 = ''DEM-CLONE-20240105090307-0''"
  by code_simp

text \<open>
  C3. The claim fails where an id the loop builds is already stored. The ids are
  formatted from the clock reading to the second and the index, so a second clone of a
  demand within the same second builds the ids of the first: the first call stores its
  row, the second is refused by the unique index on \<open>demands.id\<close> and stores nothing.
  (\<open>clone_demand_fresh\<close> is what holds when the ids are free.)
\<close>

theorem clone_demand_same_second_refused:
  "\<exists>stored db1.
     clone_demand sample_db ''DEM-1'' 1 ''system@example.com'' sample_clock (\<lambda>i. sample_clock) =
       (Inr stored, db1)
     \<and> map d_id stored = [''DEM-CLONE-20240105090307-0'']
     \<and> get_demand_by_id db1 ''DEM-1'' = Some (sample_demand 1 ''DEM-1'' ''ACC-1'')
     \<and> clone_demand db1 ''DEM-1'' 1 ''system@example.com'' sample_clock (\<lambda>i. sample_clock) =
       (Inl IntegrityError, db1)"
proof -
  let ?row = "clone_row (sample_demand 1 ''DEM-1'' ''ACC-1'') (clone_id sample_clock 0)
                ''system@example.com'' (dt_date sample_clock)"
  have fresh: "\<forall>i < nat 1. clone_id sample_clock i \<notin> d_id ` set (demands sample_db)"
    by (simp add: sample_db_no_clones)
  from clone_demand_fresh [OF sample_db_DEM_1 fresh, of "''system@example.com''" sample_clock]
  obtain stored where first:
      "clone_demand sample_db ''DEM-1'' 1 ''system@example.com'' sample_clock (\<lambda>i. sample_clock) =
         (Inr stored, sample_db\<lparr>demands := demands sample_db @ stored\<rparr>)"
      and len: "length stored = 1"
      and row: "stored ! 0 = ?row\<lparr>d_sno := next_sno sample_db + 0\<rparr>"
    by auto
  let ?db1 = "sample_db\<lparr>demands := demands sample_db @ stored\<rparr>"
  from len row have stored: "stored = [?row\<lparr>d_sno := next_sno sample_db + 0\<rparr>]"
    by (cases stored) simp_all
  then have ids: "map d_id stored = [''DEM-CLONE-20240105090307-0'']"
    by (simp add: clone_id_sample)
  have src: "get_demand_by_id ?db1 ''DEM-1'' = Some (sample_demand 1 ''DEM-1'' ''ACC-1'')"
    by (simp add: get_demand_by_id_def sample_db_def sample_demand_def)
  have taken: "d_id ?row \<in> d_id ` set (demands ?db1)"
    using stored by simp
  have "add_demands ?db1 (map (\<lambda>i. clone_row (sample_demand 1 ''DEM-1'' ''ACC-1'')
            (clone_id sample_clock i) ''system@example.com'' (dt_date sample_clock)) [0..<nat 1])
          = Inl IntegrityError"
    by (rule add_demands_taken [of ?row]) (use taken in simp_all)
  with src have second:
      "clone_demand ?db1 ''DEM-1'' 1 ''system@example.com'' sample_clock (\<lambda>i. sample_clock) =
         (Inl IntegrityError, ?db1)"
    by (simp add: clone_demand_def Let_def)
  show ?thesis
    by (intro exI [of _ stored] exI [of _ ?db1] conjI first ids src second)
qed

section \<open>Creating an account\<close>

lemma add_account_fresh:
  "a_id account \<notin> a_id ` set (accounts db) \<Longrightarrow>
   add_account db account = Inr (db\<lparr>accounts := accounts db @ [account]\<rparr>)"
  by (simp add: add_account_def)

lemma add_account_taken:
  "a_id account \<in> a_id ` set (accounts db) \<Longrightarrow> add_account db account = Inl IntegrityError"
  by (simp add: add_account_def)

text \<open>
  When the dates of the request convert and the id built from the clock is free,
  \<open>create_account\<close> appends one row: its id is \<open>ACC-\<close> and the reading to the second, its
  audit columns are the caller and the date of the second reading.
\<close>

lemma create_account_fresh:
  assumes "to_date strptime (ac_revised_start_date account_data) = Inr revised_start"
      and "to_date strptime (ac_planned_start_date account_data) = Inr planned_start"
      and "to_date strptime (ac_planned_end_date account_data) = Inr planned_end"
      and "''ACC-'' @ strftime t_id \<notin> a_id ` set (accounts db)"
  shows "\<exists>account. create_account strptime db account_data user_id t_id t_now =
                      (Inr account, db\<lparr>accounts := accounts db @ [account]\<rparr>)
           \<and> a_id account = ''ACC-'' @ strftime t_id
           \<and> a_added_on account = dt_date t_now \<and> a_updated_on account = dt_date t_now
           \<and> a_added_by account = user_id \<and> a_last_updated_by account = user_id"
  using assms by (simp add: create_account_def Let_def add_account_fresh)

lemma create_account_taken:
  assumes "to_date strptime (ac_revised_start_date account_data) = Inr revised_start"
      and "to_date strptime (ac_planned_start_date account_data) = Inr planned_start"
      and "to_date strptime (ac_planned_end_date account_data) = Inr planned_end"
      and "''ACC-'' @ strftime t_id \<in> a_id ` set (accounts db)"
  shows "create_account strptime db account_data user_id t_id t_now = (Inl IntegrityError, db)"
  using assms by (simp add: create_account_def Let_def add_account_taken)

lemma strftime_sample: "strftime sample_clock = ''20240105090307''"
  by code_simp

lemma to_date_sample:
  "to_date sample_strptime (ac_revised_start_date sample_account_create) = Inr (Some (Date 2024 3 1))"
  "to_date sample_strptime (ac_planned_start_date sample_account_create) = Inr None"
  "to_date sample_strptime (ac_planned_end_date sample_account_create) = Inr None"
  by (simp_all add: to_date_def sample_strptime_def sample_account_create_def)

text \<open>
  C4. The id is \<open>ACC-\<close> followed by the clock reading to the second and nothing else, so
  it is not unique across creations within one second. On the empty database a first
  creation returns the account \<open>ACC-20240105090307\<close>; a second valid creation while the
  clock reads the same second is refused by the primary key and returns no record; and
  after the first account is deleted, a creation in that second returns the id of the
  account created before.
\<close>

theorem create_account_same_second_collides:
  "\<exists>account db1 db2 account'.
     create_account sample_strptime empty_db sample_account_create ''system@example.com''
       sample_clock sample_clock = (Inr account, db1)
     \<and> a_id account = ''ACC-20240105090307''
     \<and> create_account sample_strptime db1 sample_account_create ''system@example.com''
         sample_clock sample_clock = (Inl IntegrityError, db1)
     \<and> delete_account db1 ''ACC-20240105090307'' = (True, db2)
     \<and> create_account sample_strptime db2 sample_account_create ''system@example.com''
         sample_clock sample_clock = (Inr account', db1)
     \<and> a_id account' = a_id account"
proof -
  have "''ACC-'' @ strftime sample_clock \<notin> a_id ` set (accounts empty_db)"
    by (simp add: empty_db_def)
  from create_account_fresh [OF to_date_sample this, of "''system@example.com''" sample_clock]
  obtain account where first:
      "create_account sample_strptime empty_db sample_account_create ''system@example.com''
         sample_clock sample_clock =
           (Inr account, empty_db\<lparr>accounts := accounts empty_db @ [account]\<rparr>)"
      and id: "a_id account = ''ACC-'' @ strftime sample_clock"
    by blast
  let ?db1 = "empty_db\<lparr>accounts := accounts empty_db @ [account]\<rparr>"
  from id have id': "a_id account = ''ACC-20240105090307''"
    by (simp add: strftime_sample)
  have "''ACC-'' @ strftime sample_clock \<in> a_id ` set (accounts ?db1)"
    using id by simp
  from create_account_taken [OF to_date_sample this]
  have second: "create_account sample_strptime ?db1 sample_account_create ''system@example.com''
      sample_clock sample_clock = (Inl IntegrityError, ?db1)" .
  have del: "delete_account ?db1 ''ACC-20240105090307'' = (True, empty_db)"
    using id' by (simp add: delete_account_def get_account_by_id_def empty_db_def)
  show ?thesis
    by (intro exI [of _ account] exI [of _ ?db1] exI [of _ empty_db] conjI first id' second del
        refl)
qed

section \<open>Partial update of an account\<close>

lemma set_column_case: "set_column f old = (case f of Unset \<Rightarrow> old | Provided v \<Rightarrow> v)"
  by (cases f) simp_all

lemma convert_date_valid:
  assumes "valid_date_field strptime f"
  shows "\<exists>v. convert_date strptime f = Inr v \<and> bindable v
           \<and> (\<forall>old. set_date_column v old =
                 (case f of Unset \<Rightarrow> old | Provided None \<Rightarrow> None | Provided (Some s) \<Rightarrow> strptime s))"
proof (cases f)
  case Unset
  then show ?thesis by (simp add: convert_date_def)
next
  case (Provided v)
  show ?thesis
  proof (cases v)
    case None
    with Provided show ?thesis by (simp add: convert_date_def)
  next
    case (Some s)
    with Provided assms obtain d where "s \<noteq> []" "strptime s = Some d"
      by (auto simp: valid_date_field_def)
    with Provided Some show ?thesis by (simp add: convert_date_def)
  qed
qed

lemma find_map_preserved:
  "(\<And>a. P (h a) = P a) \<Longrightarrow> find P (map h xs) = map_option h (find P xs)"
  by (induction xs) auto

lemma a_id_apply_account_update [simp]:
  "a_id (apply_account_update account_data r ps pe user_id today account) = a_id account"
  by (simp add: apply_account_update_def)

lemma update_account_run:
  assumes found: "get_account_by_id db account_id = Some account"
      and r: "convert_date strptime (au_revised_start_date account_data) = Inr r" "bindable r"
      and ps: "convert_date strptime (au_planned_start_date account_data) = Inr ps" "bindable ps"
      and pe: "convert_date strptime (au_planned_end_date account_data) = Inr pe" "bindable pe"
  shows "update_account strptime db account_id account_data user_id t_now =
           (Inr (Some (apply_account_update account_data r ps pe user_id (dt_date t_now) account)),
            db\<lparr>accounts := map (\<lambda>a. if a_id a = account_id
                 then apply_account_update account_data r ps pe user_id (dt_date t_now) a else a)
                 (accounts db)\<rparr>)"
proof -
  from found have "a_id account = account_id"
    by (auto simp: get_account_by_id_def dest: find_key_Some)
  with assms show ?thesis
    by (simp add: update_account_def Let_def)
qed

lemma get_account_after_update:
  "get_account_by_id (db\<lparr>accounts := map (\<lambda>a. if a_id a = account_id
       then apply_account_update account_data r ps pe user_id today a else a) (accounts db)\<rparr>) other =
     map_option (\<lambda>a. if a_id a = account_id
       then apply_account_update account_data r ps pe user_id today a else a)
       (get_account_by_id db other)"
  by (simp add: get_account_by_id_def find_map_preserved)

lemma convert_date_invalid:
  assumes "\<not> valid_date_field strptime f"
  shows "convert_date strptime f = Inl ValueError
         \<or> (\<exists>v. convert_date strptime f = Inr v \<and> \<not> bindable v)"
proof (cases f)
  case Unset
  with assms show ?thesis by (simp add: valid_date_field_def)
next
  case (Provided v)
  show ?thesis
  proof (cases v)
    case None
    with Provided assms show ?thesis by (simp add: valid_date_field_def)
  next
    case (Some s)
    with Provided assms show ?thesis
      by (cases "strptime s") (auto simp: valid_date_field_def convert_date_def)
  qed
qed

lemma convert_date_cases:
  "convert_date strptime f = Inl ValueError \<or> (\<exists>v. convert_date strptime f = Inr v)"
  by (auto simp: convert_date_def split: field.splits option.splits)

lemma update_account_refused:
  assumes found: "get_account_by_id db account_id = Some account"
      and bad: "\<not> (valid_date_field strptime (au_revised_start_date account_data)
                 \<and> valid_date_field strptime (au_planned_start_date account_data)
                 \<and> valid_date_field strptime (au_planned_end_date account_data))"
  shows "\<exists>e. update_account strptime db account_id account_data user_id t_now = (Inl e, db)"
proof -
  consider (e1) "convert_date strptime (au_revised_start_date account_data) = Inl ValueError"
    | (e2) r where "convert_date strptime (au_revised_start_date account_data) = Inr r"
        "convert_date strptime (au_planned_start_date account_data) = Inl ValueError"
    | (e3) r ps where "convert_date strptime (au_revised_start_date account_data) = Inr r"
        "convert_date strptime (au_planned_start_date account_data) = Inr ps"
        "convert_date strptime (au_planned_end_date account_data) = Inl ValueError"
    | (ok) r ps pe where "convert_date strptime (au_revised_start_date account_data) = Inr r"
        "convert_date strptime (au_planned_start_date account_data) = Inr ps"
        "convert_date strptime (au_planned_end_date account_data) = Inr pe"
    using convert_date_cases [of strptime "au_revised_start_date account_data"]
      convert_date_cases [of strptime "au_planned_start_date account_data"]
      convert_date_cases [of strptime "au_planned_end_date account_data"]
    by blast
  then show ?thesis
  proof cases
    case e1
    with found show ?thesis by (simp add: update_account_def)
  next
    case e2
    with found show ?thesis by (simp add: update_account_def)
  next
    case e3
    with found show ?thesis by (simp add: update_account_def)
  next
    case ok
    from bad ok convert_date_invalid [of strptime "au_revised_start_date account_data"]
      convert_date_invalid [of strptime "au_planned_start_date account_data"]
      convert_date_invalid [of strptime "au_planned_end_date account_data"]
    have "\<not> (bindable r \<and> bindable ps \<and> bindable pe)"
      by auto
    with found ok show ?thesis by (simp add: update_account_def Let_def)
  qed
qed

text \<open>
  C5. For a stored account, \<open>update_account\<close> has two outcomes. When each date of the
  request is absent, \<^verbatim>\<open>None\<close> or a non-empty string that parses, it returns the updated row,
  which is also the row then stored under the id: \<open>last_updated_by\<close> is the caller and
  \<open>updated_on\<close> the date of the clock; \<open>id\<close>, \<open>added_by\<close> and \<open>added_on\<close> are as before; and
  each of the sixteen business columns is the value the request gives for it when the
  field is present (a date parsed, a probability as its number) and its prior value when
  the field is absent. The other accounts and the demands are as before. Otherwise (a
  date string that is empty or does not parse) it raises and the database is as before.
\<close>

theorem update_account_partial:
  assumes found: "get_account_by_id db account_id = Some account"
  shows "(valid_date_field strptime (au_revised_start_date account_data)
          \<and> valid_date_field strptime (au_planned_start_date account_data)
          \<and> valid_date_field strptime (au_planned_end_date account_data)
         \<longrightarrow> (\<exists>account' db'.
           update_account strptime db account_id account_data user_id t_now = (Inr (Some account'), db')
         \<and> get_account_by_id db' account_id = Some account'
         \<and> (\<forall>other. other \<noteq> account_id \<longrightarrow> get_account_by_id db' other = get_account_by_id db other)
         \<and> map a_id (accounts db') = map a_id (accounts db)
         \<and> demands db' = demands db
         \<and> a_last_updated_by account' = user_id
         \<and> a_updated_on account' = dt_date t_now
         \<and> a_id account' = a_id account
         \<and> a_added_by account' = a_added_by account
         \<and> a_added_on account' = a_added_on account
         \<and> a_client account' = (case au_client account_data of Unset \<Rightarrow> a_client account | Provided v \<Rightarrow> v)
         \<and> a_project account' = (case au_project account_data of Unset \<Rightarrow> a_project account | Provided v \<Rightarrow> v)
         \<and> a_vertical account' = (case au_vertical account_data of Unset \<Rightarrow> a_vertical account | Provided v \<Rightarrow> v)
         \<and> a_geo account' = (case au_geo account_data of Unset \<Rightarrow> a_geo account | Provided v \<Rightarrow> v)
         \<and> a_start_month account' =
             (case au_start_month account_data of Unset \<Rightarrow> a_start_month account | Provided v \<Rightarrow> v)
         \<and> a_revised_start_date account' =
             (case au_revised_start_date account_data of
                Unset \<Rightarrow> a_revised_start_date account
              | Provided None \<Rightarrow> None
              | Provided (Some s) \<Rightarrow> strptime s)
         \<and> a_planned_start_date account' =
             (case au_planned_start_date account_data of
                Unset \<Rightarrow> a_planned_start_date account
              | Provided None \<Rightarrow> None
              | Provided (Some s) \<Rightarrow> strptime s)
         \<and> a_planned_end_date account' =
             (case au_planned_end_date account_data of
                Unset \<Rightarrow> a_planned_end_date account
              | Provided None \<Rightarrow> None
              | Provided (Some s) \<Rightarrow> strptime s)
         \<and> a_probability account' =
             (case au_probability account_data of
                Unset \<Rightarrow> a_probability account
              | Provided v \<Rightarrow> map_option probability_value v)
         \<and> a_opportunity_status account' =
             (case au_opportunity_status account_data of
                Unset \<Rightarrow> a_opportunity_status account | Provided v \<Rightarrow> v)
         \<and> a_sow_status account' =
             (case au_sow_status account_data of Unset \<Rightarrow> a_sow_status account | Provided v \<Rightarrow> v)
         \<and> a_project_status account' =
             (case au_project_status account_data of
                Unset \<Rightarrow> a_project_status account | Provided v \<Rightarrow> v)
         \<and> a_client_partner account' =
             (case au_client_partner account_data of
                Unset \<Rightarrow> a_client_partner account | Provided v \<Rightarrow> v)
         \<and> a_proposal_anchor account' =
             (case au_proposal_anchor account_data of
                Unset \<Rightarrow> a_proposal_anchor account | Provided v \<Rightarrow> v)
         \<and> a_delivery_partner account' =
             (case au_delivery_partner account_data of
                Unset \<Rightarrow> a_delivery_partner account | Provided v \<Rightarrow> v)
         \<and> a_comment account' = (case au_comment account_data of Unset \<Rightarrow> a_comment account | Provided v \<Rightarrow> v)))
       \<and> (\<not> (valid_date_field strptime (au_revised_start_date account_data)
              \<and> valid_date_field strptime (au_planned_start_date account_data)
              \<and> valid_date_field strptime (au_planned_end_date account_data))
            \<longrightarrow> (\<exists>e. update_account strptime db account_id account_data user_id t_now = (Inl e, db)))"
    (is "(_ \<longrightarrow> ?written) \<and> _")
proof (intro conjI impI)
  assume bad: "\<not> (valid_date_field strptime (au_revised_start_date account_data)
              \<and> valid_date_field strptime (au_planned_start_date account_data)
              \<and> valid_date_field strptime (au_planned_end_date account_data))"
  show "\<exists>e. update_account strptime db account_id account_data user_id t_now = (Inl e, db)"
    by (rule update_account_refused [OF found bad])
next
  assume "valid_date_field strptime (au_revised_start_date account_data)
          \<and> valid_date_field strptime (au_planned_start_date account_data)
          \<and> valid_date_field strptime (au_planned_end_date account_data)"
  then have dates: "valid_date_field strptime (au_revised_start_date account_data)"
      "valid_date_field strptime (au_planned_start_date account_data)"
      "valid_date_field strptime (au_planned_end_date account_data)"
    by simp_all
  from convert_date_valid [OF dates(1)] obtain r where
      r: "convert_date strptime (au_revised_start_date account_data) = Inr r" "bindable r"
      and r': "\<And>old. set_date_column r old =
        (case au_revised_start_date account_data of
           Unset \<Rightarrow> old | Provided None \<Rightarrow> None | Provided (Some s) \<Rightarrow> strptime s)"
    by blast
  from convert_date_valid [OF dates(2)] obtain ps where
      ps: "convert_date strptime (au_planned_start_date account_data) = Inr ps" "bindable ps"
      and ps': "\<And>old. set_date_column ps old =
        (case au_planned_start_date account_data of
           Unset \<Rightarrow> old | Provided None \<Rightarrow> None | Provided (Some s) \<Rightarrow> strptime s)"
    by blast
  from convert_date_valid [OF dates(3)] obtain pe where
      pe: "convert_date strptime (au_planned_end_date account_data) = Inr pe" "bindable pe"
      and pe': "\<And>old. set_date_column pe old =
        (case au_planned_end_date account_data of
           Unset \<Rightarrow> old | Provided None \<Rightarrow> None | Provided (Some s) \<Rightarrow> strptime s)"
    by blast
  let ?upd = "apply_account_update account_data r ps pe user_id (dt_date t_now)"
  let ?db = "db\<lparr>accounts := map (\<lambda>a. if a_id a = account_id then ?upd a else a) (accounts db)\<rparr>"
  from found have key: "a_id account = account_id"
    by (auto simp: get_account_by_id_def dest: find_key_Some)
  have run: "update_account strptime db account_id account_data user_id t_now =
      (Inr (Some (?upd account)), ?db)"
    by (rule update_account_run [OF found r ps pe])
  have readback: "get_account_by_id ?db account_id = Some (?upd account)"
    using found key by (simp add: get_account_after_update)
  have others: "\<forall>other. other \<noteq> account_id \<longrightarrow> get_account_by_id ?db other = get_account_by_id db other"
  proof (intro allI impI)
    fix other assume ne: "other \<noteq> account_id"
    show "get_account_by_id ?db other = get_account_by_id db other"
    proof (cases "get_account_by_id db other")
      case None
      then show ?thesis by (simp add: get_account_after_update)
    next
      case (Some b)
      then have "a_id b = other"
        by (auto simp: get_account_by_id_def dest: find_key_Some)
      with ne Some show ?thesis by (simp add: get_account_after_update)
    qed
  qed
  have ids: "map a_id (accounts ?db) = map a_id (accounts db)"
    by (simp add: comp_def if_distrib [of a_id] cong: if_cong)
  have dem: "demands ?db = demands db"
    by simp
  have fields:
    "a_last_updated_by (?upd account) = user_id"
    "a_updated_on (?upd account) = dt_date t_now"
    "a_id (?upd account) = a_id account"
    "a_added_by (?upd account) = a_added_by account"
    "a_added_on (?upd account) = a_added_on account"
    "a_client (?upd account) = (case au_client account_data of Unset \<Rightarrow> a_client account | Provided v \<Rightarrow> v)"
    "a_project (?upd account) = (case au_project account_data of Unset \<Rightarrow> a_project account | Provided v \<Rightarrow> v)"
    "a_vertical (?upd account) = (case au_vertical account_data of Unset \<Rightarrow> a_vertical account | Provided v \<Rightarrow> v)"
    "a_geo (?upd account) = (case au_geo account_data of Unset \<Rightarrow> a_geo account | Provided v \<Rightarrow> v)"
    "a_start_month (?upd account) =
       (case au_start_month account_data of Unset \<Rightarrow> a_start_month account | Provided v \<Rightarrow> v)"
    "a_opportunity_status (?upd account) =
       (case au_opportunity_status account_data of
          Unset \<Rightarrow> a_opportunity_status account | Provided v \<Rightarrow> v)"
    "a_sow_status (?upd account) =
       (case au_sow_status account_data of Unset \<Rightarrow> a_sow_status account | Provided v \<Rightarrow> v)"
    "a_project_status (?upd account) =
       (case au_project_status account_data of Unset \<Rightarrow> a_project_status account | Provided v \<Rightarrow> v)"
    "a_client_partner (?upd account) =
       (case au_client_partner account_data of Unset \<Rightarrow> a_client_partner account | Provided v \<Rightarrow> v)"
    "a_proposal_anchor (?upd account) =
       (case au_proposal_anchor account_data of Unset \<Rightarrow> a_proposal_anchor account | Provided v \<Rightarrow> v)"
    "a_delivery_partner (?upd account) =
       (case au_delivery_partner account_data of
          Unset \<Rightarrow> a_delivery_partner account | Provided v \<Rightarrow> v)"
    "a_comment (?upd account) = (case au_comment account_data of Unset \<Rightarrow> a_comment account | Provided v \<Rightarrow> v)"
    by (simp_all add: apply_account_update_def set_column_case)
  have prob: "a_probability (?upd account) =
      (case au_probability account_data of
         Unset \<Rightarrow> a_probability account
       | Provided v \<Rightarrow> map_option probability_value v)"
    by (cases "au_probability account_data") (simp_all add: apply_account_update_def)
  have date_fields:
    "a_revised_start_date (?upd account) =
       (case au_revised_start_date account_data of
          Unset \<Rightarrow> a_revised_start_date account | Provided None \<Rightarrow> None | Provided (Some s) \<Rightarrow> strptime s)"
    "a_planned_start_date (?upd account) =
       (case au_planned_start_date account_data of
          Unset \<Rightarrow> a_planned_start_date account | Provided None \<Rightarrow> None | Provided (Some s) \<Rightarrow> strptime s)"
    "a_planned_end_date (?upd account) =
       (case au_planned_end_date account_data of
          Unset \<Rightarrow> a_planned_end_date account | Provided None \<Rightarrow> None | Provided (Some s) \<Rightarrow> strptime s)"
    by (simp_all add: apply_account_update_def r' ps' pe')
  show ?written
    by (intro exI [of _ "?upd account"] exI [of _ ?db] conjI run readback others ids dem fields prob
        date_fields)
qed

lemma sample_db_ACC_1: "get_account_by_id sample_db ''ACC-1'' = Some (sample_account ''ACC-1'')"
  by (simp add: get_account_by_id_def sample_db_def sample_account_def)

theorem update_account_partial_witness:
  "get_account_by_id sample_db ''ACC-1'' = Some (sample_account ''ACC-1'')
   \<and> (\<exists>account' db'.
         update_account sample_strptime sample_db ''ACC-1''
           (no_account_update\<lparr>au_comment := Provided (Some ''x'')\<rparr>) ''ann@example.com''
           (DateTime (Date 2024 6 30) 12 0 0) = (Inr (Some account'), db')
       \<and> get_account_by_id db' ''ACC-1'' = Some account'
       \<and> a_comment account' = Some ''x''
       \<and> a_last_updated_by account' = ''ann@example.com''
       \<and> a_updated_on account' = Date 2024 6 30
       \<and> a_client account' = Some ''Acme''
       \<and> a_project account' = Some ''Portal''
       \<and> a_probability account' = Some 75
       \<and> a_revised_start_date account' = Some (Date 2024 2 1)
       \<and> a_added_by account' = ''system@example.com'')
   \<and> (\<exists>e. update_account sample_strptime sample_db ''ACC-1''
           (no_account_update\<lparr>au_planned_end_date := Provided (Some ''soon'')\<rparr>) ''ann@example.com''
           (DateTime (Date 2024 6 30) 12 0 0) = (Inl e, sample_db))"
proof -
  let ?ok = "no_account_update\<lparr>au_comment := Provided (Some ''x'')\<rparr>"
  let ?bad = "no_account_update\<lparr>au_planned_end_date := Provided (Some ''soon'')\<rparr>"
  have valid: "valid_date_field sample_strptime (au_revised_start_date ?ok)
      \<and> valid_date_field sample_strptime (au_planned_start_date ?ok)
      \<and> valid_date_field sample_strptime (au_planned_end_date ?ok)"
    by (simp add: valid_date_field_def no_account_update_def)
  have invalid: "\<not> (valid_date_field sample_strptime (au_revised_start_date ?bad)
      \<and> valid_date_field sample_strptime (au_planned_start_date ?bad)
      \<and> valid_date_field sample_strptime (au_planned_end_date ?bad))"
    by (simp add: valid_date_field_def no_account_update_def sample_strptime_def)
  from update_account_partial [OF sample_db_ACC_1, of sample_strptime ?ok "''ann@example.com''"
      "DateTime (Date 2024 6 30) 12 0 0"] valid
  obtain account' db' where w:
      "update_account sample_strptime sample_db ''ACC-1'' ?ok ''ann@example.com''
         (DateTime (Date 2024 6 30) 12 0 0) = (Inr (Some account'), db')"
      "get_account_by_id db' ''ACC-1'' = Some account'"
      "a_comment account' =
         (case au_comment ?ok of Unset \<Rightarrow> a_comment (sample_account ''ACC-1'') | Provided v \<Rightarrow> v)"
      "a_last_updated_by account' = ''ann@example.com''"
      "a_updated_on account' = dt_date (DateTime (Date 2024 6 30) 12 0 0)"
      "a_client account' =
         (case au_client ?ok of Unset \<Rightarrow> a_client (sample_account ''ACC-1'') | Provided v \<Rightarrow> v)"
      "a_project account' =
         (case au_project ?ok of Unset \<Rightarrow> a_project (sample_account ''ACC-1'') | Provided v \<Rightarrow> v)"
      "a_probability account' =
         (case au_probability ?ok of
            Unset \<Rightarrow> a_probability (sample_account ''ACC-1'')
          | Provided v \<Rightarrow> map_option probability_value v)"
      "a_revised_start_date account' =
         (case au_revised_start_date ?ok of
            Unset \<Rightarrow> a_revised_start_date (sample_account ''ACC-1'')
          | Provided None \<Rightarrow> None
          | Provided (Some s) \<Rightarrow> sample_strptime s)"
      "a_added_by account' = a_added_by (sample_account ''ACC-1'')"
    by blast
  have written: "\<exists>account' db'.
         update_account sample_strptime sample_db ''ACC-1'' ?ok ''ann@example.com''
           (DateTime (Date 2024 6 30) 12 0 0) = (Inr (Some account'), db')
       \<and> get_account_by_id db' ''ACC-1'' = Some account'
       \<and> a_comment account' = Some ''x''
       \<and> a_last_updated_by account' = ''ann@example.com''
       \<and> a_updated_on account' = Date 2024 6 30
       \<and> a_client account' = Some ''Acme''
       \<and> a_project account' = Some ''Portal''
       \<and> a_probability account' = Some 75
       \<and> a_revised_start_date account' = Some (Date 2024 2 1)
       \<and> a_added_by account' = ''system@example.com''"
    using w by (intro exI [of _ account'] exI [of _ db'])
      (simp add: no_account_update_def sample_account_def)
  from update_account_partial [OF sample_db_ACC_1, of sample_strptime ?bad "''ann@example.com''"
      "DateTime (Date 2024 6 30) 12 0 0"] invalid
  have refused: "\<exists>e. update_account sample_strptime sample_db ''ACC-1'' ?bad ''ann@example.com''
      (DateTime (Date 2024 6 30) 12 0 0) = (Inl e, sample_db)"
    by blast
  from sample_db_ACC_1 written refused show ?thesis
    by (intro conjI)
qed

section \<open>Dates given as null in an update\<close>

lemma d_id_apply_demand_update [simp]:
  "d_id (apply_demand_update demand_data account_id os ae user_id today demand) = d_id demand"
  by (simp add: apply_demand_update_def)

lemma d_sno_apply_demand_update [simp]:
  "d_sno (apply_demand_update demand_data account_id os ae user_id today demand) = d_sno demand"
  by (simp add: apply_demand_update_def)

lemma update_demand_run:
  assumes found: "get_demand_by_id db demand_id = Some demand"
      and acc: "check_account_id db (du_account_id demand_data) = Inr account_id"
      and os: "convert_date strptime (du_original_start_date demand_data) = Inr os" "bindable os"
      and ae: "convert_date strptime (du_allocation_end_date demand_data) = Inr ae" "bindable ae"
      and ints: "bindable_integer (du_allocation_percentage demand_data)"
                "bindable_integer (du_probability demand_data)"
  shows "update_demand strptime db demand_id demand_data user_id t_now =
           (Inr (Some (apply_demand_update demand_data account_id os ae user_id (dt_date t_now) demand)),
            db\<lparr>demands := map (\<lambda>d. if d_sno d = d_sno demand
                 then apply_demand_update demand_data account_id os ae user_id (dt_date t_now) d else d)
                 (demands db)\<rparr>)"
  using assms by (simp add: update_demand_def Let_def)

lemma get_demand_after_update:
  "get_demand_by_id (db\<lparr>demands := map (\<lambda>d. if d_sno d = sno
       then apply_demand_update demand_data account_id os ae user_id today d else d) (demands db)\<rparr>) other =
     map_option (\<lambda>d. if d_sno d = sno
       then apply_demand_update demand_data account_id os ae user_id today d else d)
       (get_demand_by_id db other)"
  by (simp add: get_demand_by_id_def find_map_preserved)

text \<open>The dates of an account after an update that goes through.\<close>

lemma update_account_dates:
  assumes found: "get_account_by_id db account_id = Some account"
      and dates: "valid_date_field strptime (au_revised_start_date account_data)"
                 "valid_date_field strptime (au_planned_start_date account_data)"
                 "valid_date_field strptime (au_planned_end_date account_data)"
  shows "\<exists>account' db'.
           update_account strptime db account_id account_data user_id t_now = (Inr (Some account'), db')
         \<and> get_account_by_id db' account_id = Some account'
         \<and> a_revised_start_date account' =
             (case au_revised_start_date account_data of
                Unset \<Rightarrow> a_revised_start_date account
              | Provided None \<Rightarrow> None
              | Provided (Some s) \<Rightarrow> strptime s)
         \<and> a_planned_start_date account' =
             (case au_planned_start_date account_data of
                Unset \<Rightarrow> a_planned_start_date account
              | Provided None \<Rightarrow> None
              | Provided (Some s) \<Rightarrow> strptime s)
         \<and> a_planned_end_date account' =
             (case au_planned_end_date account_data of
                Unset \<Rightarrow> a_planned_end_date account
              | Provided None \<Rightarrow> None
              | Provided (Some s) \<Rightarrow> strptime s)"
proof -
  from convert_date_valid [OF dates(1)] obtain r where
      r: "convert_date strptime (au_revised_start_date account_data) = Inr r" "bindable r"
      and r': "\<And>old. set_date_column r old =
        (case au_revised_start_date account_data of
           Unset \<Rightarrow> old | Provided None \<Rightarrow> None | Provided (Some s) \<Rightarrow> strptime s)"
    by blast
  from convert_date_valid [OF dates(2)] obtain ps where
      ps: "convert_date strptime (au_planned_start_date account_data) = Inr ps" "bindable ps"
      and ps': "\<And>old. set_date_column ps old =
        (case au_planned_start_date account_data of
           Unset \<Rightarrow> old | Provided None \<Rightarrow> None | Provided (Some s) \<Rightarrow> strptime s)"
    by blast
  from convert_date_valid [OF dates(3)] obtain pe where
      pe: "convert_date strptime (au_planned_end_date account_data) = Inr pe" "bindable pe"
      and pe': "\<And>old. set_date_column pe old =
        (case au_planned_end_date account_data of
           Unset \<Rightarrow> old | Provided None \<Rightarrow> None | Provided (Some s) \<Rightarrow> strptime s)"
    by blast
  let ?upd = "apply_account_update account_data r ps pe user_id (dt_date t_now)"
  let ?db = "db\<lparr>accounts := map (\<lambda>a. if a_id a = account_id then ?upd a else a) (accounts db)\<rparr>"
  from found have key: "a_id account = account_id"
    by (auto simp: get_account_by_id_def dest: find_key_Some)
  have run: "update_account strptime db account_id account_data user_id t_now =
      (Inr (Some (?upd account)), ?db)"
    by (rule update_account_run [OF found r ps pe])
  have readback: "get_account_by_id ?db account_id = Some (?upd account)"
    using found key by (simp add: get_account_after_update)
  have date_fields:
    "a_revised_start_date (?upd account) =
       (case au_revised_start_date account_data of
          Unset \<Rightarrow> a_revised_start_date account | Provided None \<Rightarrow> None | Provided (Some s) \<Rightarrow> strptime s)"
    "a_planned_start_date (?upd account) =
       (case au_planned_start_date account_data of
          Unset \<Rightarrow> a_planned_start_date account | Provided None \<Rightarrow> None | Provided (Some s) \<Rightarrow> strptime s)"
    "a_planned_end_date (?upd account) =
       (case au_planned_end_date account_data of
          Unset \<Rightarrow> a_planned_end_date account | Provided None \<Rightarrow> None | Provided (Some s) \<Rightarrow> strptime s)"
    by (simp_all add: apply_account_update_def r' ps' pe')
  show ?thesis
    by (intro exI [of _ "?upd account"] exI [of _ ?db] conjI run readback date_fields)
qed

text \<open>The same for a demand, when the account check of the update passes.\<close>

lemma update_demand_dates:
  assumes found: "get_demand_by_id db demand_id = Some demand"
      and acc: "check_account_id db (du_account_id demand_data) = Inr account_id"
      and dates: "valid_date_field strptime (du_original_start_date demand_data)"
                 "valid_date_field strptime (du_allocation_end_date demand_data)"
      and ints: "bindable_integer (du_allocation_percentage demand_data)"
                "bindable_integer (du_probability demand_data)"
  shows "\<exists>demand' db'.
           update_demand strptime db demand_id demand_data user_id t_now = (Inr (Some demand'), db')
         \<and> get_demand_by_id db' demand_id = Some demand'
         \<and> d_original_start_date demand' =
             (case du_original_start_date demand_data of
                Unset \<Rightarrow> d_original_start_date demand
              | Provided None \<Rightarrow> None
              | Provided (Some s) \<Rightarrow> strptime s)
         \<and> d_allocation_end_date demand' =
             (case du_allocation_end_date demand_data of
                Unset \<Rightarrow> d_allocation_end_date demand
              | Provided None \<Rightarrow> None
              | Provided (Some s) \<Rightarrow> strptime s)"
proof -
  from convert_date_valid [OF dates(1)] obtain os where
      os: "convert_date strptime (du_original_start_date demand_data) = Inr os" "bindable os"
      and os': "\<And>old. set_date_column os old =
        (case du_original_start_date demand_data of
           Unset \<Rightarrow> old | Provided None \<Rightarrow> None | Provided (Some s) \<Rightarrow> strptime s)"
    by blast
  from convert_date_valid [OF dates(2)] obtain ae where
      ae: "convert_date strptime (du_allocation_end_date demand_data) = Inr ae" "bindable ae"
      and ae': "\<And>old. set_date_column ae old =
        (case du_allocation_end_date demand_data of
           Unset \<Rightarrow> old | Provided None \<Rightarrow> None | Provided (Some s) \<Rightarrow> strptime s)"
    by blast
  let ?upd = "apply_demand_update demand_data account_id os ae user_id (dt_date t_now)"
  let ?db = "db\<lparr>demands := map (\<lambda>d. if d_sno d = d_sno demand then ?upd d else d) (demands db)\<rparr>"
  have run: "update_demand strptime db demand_id demand_data user_id t_now =
      (Inr (Some (?upd demand)), ?db)"
    by (rule update_demand_run [OF found acc os ae ints])
  have readback: "get_demand_by_id ?db demand_id = Some (?upd demand)"
    using found by (simp add: get_demand_after_update)
  have date_fields:
    "d_original_start_date (?upd demand) =
       (case du_original_start_date demand_data of
          Unset \<Rightarrow> d_original_start_date demand | Provided None \<Rightarrow> None | Provided (Some s) \<Rightarrow> strptime s)"
    "d_allocation_end_date (?upd demand) =
       (case du_allocation_end_date demand_data of
          Unset \<Rightarrow> d_allocation_end_date demand | Provided None \<Rightarrow> None | Provided (Some s) \<Rightarrow> strptime s)"
    by (simp_all add: apply_demand_update_def os' ae')
  show ?thesis
    by (intro exI [of _ "?upd demand"] exI [of _ ?db] conjI run readback date_fields)
qed

lemma check_account_id_passes:
  assumes "du_account_id demand_data = Unset
           \<or> (\<exists>x. du_account_id demand_data = Provided (Some x) \<and> x \<in> a_id ` set (accounts db))"
  shows "\<exists>v. check_account_id db (du_account_id demand_data) = Inr v"
proof -
  from assms consider (unset) "du_account_id demand_data = Unset"
    | (given) x where "du_account_id demand_data = Provided (Some x)" "x \<in> a_id ` set (accounts db)"
    by blast
  then show ?thesis
  proof cases
    case unset
    then show ?thesis by (simp add: check_account_id_def)
  next
    case given
    from given(2) have "get_account_by_id db x \<noteq> None"
      by (simp add: get_account_by_id_def find_key_None)
    with given(1) show ?thesis by (auto simp: check_account_id_def)
  qed
qed

text \<open>
  C9. In both update methods a date field that the request gives as \<^verbatim>\<open>None\<close> is a key of
  the update dictionary and is written: after an update that goes through, the stored
  date is \<open>None\<close>. A date field the request leaves out keeps the stored date. This holds
  for the three dates of an account and the two dates of a demand. (The update goes
  through when the other dates of the request are absent, \<^verbatim>\<open>None\<close> or parse and, for a
  demand, when the \<open>account_id\<close> of the request is absent or the id of a stored account
  and the \<open>allocation_percentage\<close> and \<open>probability\<close> of the request, if given, fit the
  64-bit integers of the database.)
\<close>

theorem explicit_null_clears_date:
  "(get_account_by_id db account_id = Some account
      \<and> valid_date_field strptime (au_revised_start_date account_data)
      \<and> valid_date_field strptime (au_planned_start_date account_data)
      \<and> valid_date_field strptime (au_planned_end_date account_data)
    \<longrightarrow> (\<exists>account' db'.
           update_account strptime db account_id account_data user_id t_now = (Inr (Some account'), db')
         \<and> get_account_by_id db' account_id = Some account'
         \<and> (au_revised_start_date account_data = Provided None \<longrightarrow> a_revised_start_date account' = None)
         \<and> (au_revised_start_date account_data = Unset
               \<longrightarrow> a_revised_start_date account' = a_revised_start_date account)
         \<and> (au_planned_start_date account_data = Provided None \<longrightarrow> a_planned_start_date account' = None)
         \<and> (au_planned_start_date account_data = Unset
               \<longrightarrow> a_planned_start_date account' = a_planned_start_date account)
         \<and> (au_planned_end_date account_data = Provided None \<longrightarrow> a_planned_end_date account' = None)
         \<and> (au_planned_end_date account_data = Unset
               \<longrightarrow> a_planned_end_date account' = a_planned_end_date account)))
   \<and> (get_demand_by_id db demand_id = Some demand
      \<and> (du_account_id demand_data = Unset
           \<or> (\<exists>x. du_account_id demand_data = Provided (Some x) \<and> x \<in> a_id ` set (accounts db)))
      \<and> valid_date_field strptime (du_original_start_date demand_data)
      \<and> valid_date_field strptime (du_allocation_end_date demand_data)
      \<and> bindable_integer (du_allocation_percentage demand_data)
      \<and> bindable_integer (du_probability demand_data)
    \<longrightarrow> (\<exists>demand' db'.
           update_demand strptime db demand_id demand_data user_id t_now = (Inr (Some demand'), db')
         \<and> get_demand_by_id db' demand_id = Some demand'
         \<and> (du_original_start_date demand_data = Provided None \<longrightarrow> d_original_start_date demand' = None)
         \<and> (du_original_start_date demand_data = Unset
               \<longrightarrow> d_original_start_date demand' = d_original_start_date demand)
         \<and> (du_allocation_end_date demand_data = Provided None \<longrightarrow> d_allocation_end_date demand' = None)
         \<and> (du_allocation_end_date demand_data = Unset
               \<longrightarrow> d_allocation_end_date demand' = d_allocation_end_date demand)))"
proof (intro conjI impI)
  assume h: "get_account_by_id db account_id = Some account
      \<and> valid_date_field strptime (au_revised_start_date account_data)
      \<and> valid_date_field strptime (au_planned_start_date account_data)
      \<and> valid_date_field strptime (au_planned_end_date account_data)"
  then have found: "get_account_by_id db account_id = Some account"
      and dates: "valid_date_field strptime (au_revised_start_date account_data)"
        "valid_date_field strptime (au_planned_start_date account_data)"
        "valid_date_field strptime (au_planned_end_date account_data)"
    by simp_all
  from update_account_dates [OF found dates, of user_id t_now]
  obtain account' db' where
      "update_account strptime db account_id account_data user_id t_now = (Inr (Some account'), db')"
      "get_account_by_id db' account_id = Some account'"
      "a_revised_start_date account' =
         (case au_revised_start_date account_data of
            Unset \<Rightarrow> a_revised_start_date account | Provided None \<Rightarrow> None | Provided (Some s) \<Rightarrow> strptime s)"
      "a_planned_start_date account' =
         (case au_planned_start_date account_data of
            Unset \<Rightarrow> a_planned_start_date account | Provided None \<Rightarrow> None | Provided (Some s) \<Rightarrow> strptime s)"
      "a_planned_end_date account' =
         (case au_planned_end_date account_data of
            Unset \<Rightarrow> a_planned_end_date account | Provided None \<Rightarrow> None | Provided (Some s) \<Rightarrow> strptime s)"
    by blast
  then show "\<exists>account' db'.
           update_account strptime db account_id account_data user_id t_now = (Inr (Some account'), db')
         \<and> get_account_by_id db' account_id = Some account'
         \<and> (au_revised_start_date account_data = Provided None \<longrightarrow> a_revised_start_date account' = None)
         \<and> (au_revised_start_date account_data = Unset
               \<longrightarrow> a_revised_start_date account' = a_revised_start_date account)
         \<and> (au_planned_start_date account_data = Provided None \<longrightarrow> a_planned_start_date account' = None)
         \<and> (au_planned_start_date account_data = Unset
               \<longrightarrow> a_planned_start_date account' = a_planned_start_date account)
         \<and> (au_planned_end_date account_data = Provided None \<longrightarrow> a_planned_end_date account' = None)
         \<and> (au_planned_end_date account_data = Unset
               \<longrightarrow> a_planned_end_date account' = a_planned_end_date account)"
    by (intro exI [of _ account'] exI [of _ db']) simp
next
  assume h: "get_demand_by_id db demand_id = Some demand
      \<and> (du_account_id demand_data = Unset
           \<or> (\<exists>x. du_account_id demand_data = Provided (Some x) \<and> x \<in> a_id ` set (accounts db)))
      \<and> valid_date_field strptime (du_original_start_date demand_data)
      \<and> valid_date_field strptime (du_allocation_end_date demand_data)
      \<and> bindable_integer (du_allocation_percentage demand_data)
      \<and> bindable_integer (du_probability demand_data)"
  then have found: "get_demand_by_id db demand_id = Some demand"
      and dates: "valid_date_field strptime (du_original_start_date demand_data)"
        "valid_date_field strptime (du_allocation_end_date demand_data)"
      and ints: "bindable_integer (du_allocation_percentage demand_data)"
        "bindable_integer (du_probability demand_data)"
    by simp_all
  from h check_account_id_passes [of demand_data db]
  obtain v where acc: "check_account_id db (du_account_id demand_data) = Inr v"
    by blast
  from update_demand_dates [OF found acc dates ints, of user_id t_now]
  obtain demand' db' where
      "update_demand strptime db demand_id demand_data user_id t_now = (Inr (Some demand'), db')"
      "get_demand_by_id db' demand_id = Some demand'"
      "d_original_start_date demand' =
         (case du_original_start_date demand_data of
            Unset \<Rightarrow> d_original_start_date demand | Provided None \<Rightarrow> None | Provided (Some s) \<Rightarrow> strptime s)"
      "d_allocation_end_date demand' =
         (case du_allocation_end_date demand_data of
            Unset \<Rightarrow> d_allocation_end_date demand | Provided None \<Rightarrow> None | Provided (Some s) \<Rightarrow> strptime s)"
    by blast
  then show "\<exists>demand' db'.
           update_demand strptime db demand_id demand_data user_id t_now = (Inr (Some demand'), db')
         \<and> get_demand_by_id db' demand_id = Some demand'
         \<and> (du_original_start_date demand_data = Provided None \<longrightarrow> d_original_start_date demand' = None)
         \<and> (du_original_start_date demand_data = Unset
               \<longrightarrow> d_original_start_date demand' = d_original_start_date demand)
         \<and> (du_allocation_end_date demand_data = Provided None \<longrightarrow> d_allocation_end_date demand' = None)
         \<and> (du_allocation_end_date demand_data = Unset
               \<longrightarrow> d_allocation_end_date demand' = d_allocation_end_date demand)"
    by (intro exI [of _ demand'] exI [of _ db']) simp
qed

theorem explicit_null_clears_date_witness:
  "a_revised_start_date (sample_account ''ACC-1'') = Some (Date 2024 2 1)
   \<and> (\<exists>account' db'.
         update_account sample_strptime sample_db ''ACC-1''
           (no_account_update\<lparr>au_revised_start_date := Provided None\<rparr>) ''system@example.com''
           sample_clock = (Inr (Some account'), db')
       \<and> get_account_by_id db' ''ACC-1'' = Some account'
       \<and> a_revised_start_date account' = None)
   \<and> (\<exists>account' db'.
         update_account sample_strptime sample_db ''ACC-1'' no_account_update ''system@example.com''
           sample_clock = (Inr (Some account'), db')
       \<and> get_account_by_id db' ''ACC-1'' = Some account'
       \<and> a_revised_start_date account' = Some (Date 2024 2 1))
   \<and> d_original_start_date (sample_demand 1 ''DEM-1'' ''ACC-1'') = Some (Date 2024 3 1)
   \<and> (\<exists>demand' db'.
         update_demand sample_strptime sample_db ''DEM-1''
           (no_demand_update\<lparr>du_original_start_date := Provided None\<rparr>) ''system@example.com''
           sample_clock = (Inr (Some demand'), db')
       \<and> get_demand_by_id db' ''DEM-1'' = Some demand'
       \<and> d_original_start_date demand' = None)
   \<and> (\<exists>demand' db'.
         update_demand sample_strptime sample_db ''DEM-1'' no_demand_update ''system@example.com''
           sample_clock = (Inr (Some demand'), db')
       \<and> get_demand_by_id db' ''DEM-1'' = Some demand'
       \<and> d_original_start_date demand' = Some (Date 2024 3 1))"
proof -
  let ?an = "no_account_update\<lparr>au_revised_start_date := Provided None\<rparr>"
  let ?dn = "no_demand_update\<lparr>du_original_start_date := Provided None\<rparr>"
  have a0: "a_revised_start_date (sample_account ''ACC-1'') = Some (Date 2024 2 1)"
    by (simp add: sample_account_def)
  have d0: "d_original_start_date (sample_demand 1 ''DEM-1'' ''ACC-1'') = Some (Date 2024 3 1)"
    by (simp add: sample_demand_def)
  have va: "valid_date_field sample_strptime (au_revised_start_date ?an)"
      "valid_date_field sample_strptime (au_planned_start_date ?an)"
      "valid_date_field sample_strptime (au_planned_end_date ?an)"
      "valid_date_field sample_strptime (au_revised_start_date no_account_update)"
      "valid_date_field sample_strptime (au_planned_start_date no_account_update)"
      "valid_date_field sample_strptime (au_planned_end_date no_account_update)"
    by (simp_all add: valid_date_field_def no_account_update_def)
  have vd: "valid_date_field sample_strptime (du_original_start_date ?dn)"
      "valid_date_field sample_strptime (du_allocation_end_date ?dn)"
      "valid_date_field sample_strptime (du_original_start_date no_demand_update)"
      "valid_date_field sample_strptime (du_allocation_end_date no_demand_update)"
      "du_account_id ?dn = Unset" "du_account_id no_demand_update = Unset"
      "bindable_integer (du_allocation_percentage ?dn)" "bindable_integer (du_probability ?dn)"
      "bindable_integer (du_allocation_percentage no_demand_update)"
      "bindable_integer (du_probability no_demand_update)"
    by (simp_all add: valid_date_field_def no_demand_update_def)
  have an: "au_revised_start_date ?an = Provided None"
    by simp
  have au: "au_revised_start_date no_account_update = Unset"
    by (simp add: no_account_update_def)
  have dn: "du_original_start_date ?dn = Provided None"
    by simp
  have du: "du_original_start_date no_demand_update = Unset"
    by (simp add: no_demand_update_def)
  note thm_a = explicit_null_clears_date [THEN conjunct1, rule_format]
  note thm_d = explicit_null_clears_date [THEN conjunct2, rule_format]
  have w1: "\<exists>account' db'.
         update_account sample_strptime sample_db ''ACC-1'' ?an ''system@example.com''
           sample_clock = (Inr (Some account'), db')
       \<and> get_account_by_id db' ''ACC-1'' = Some account'
       \<and> a_revised_start_date account' = None"
    using thm_a [of sample_db "''ACC-1''" "sample_account ''ACC-1''" sample_strptime ?an
        "''system@example.com''" sample_clock] sample_db_ACC_1 va an
    by blast
  have w2: "\<exists>account' db'.
         update_account sample_strptime sample_db ''ACC-1'' no_account_update ''system@example.com''
           sample_clock = (Inr (Some account'), db')
       \<and> get_account_by_id db' ''ACC-1'' = Some account'
       \<and> a_revised_start_date account' = Some (Date 2024 2 1)"
    using thm_a [of sample_db "''ACC-1''" "sample_account ''ACC-1''" sample_strptime no_account_update
        "''system@example.com''" sample_clock] sample_db_ACC_1 va au a0
    by metis
  have w3: "\<exists>demand' db'.
         update_demand sample_strptime sample_db ''DEM-1'' ?dn ''system@example.com''
           sample_clock = (Inr (Some demand'), db')
       \<and> get_demand_by_id db' ''DEM-1'' = Some demand'
       \<and> d_original_start_date demand' = None"
    using thm_d [of sample_db "''DEM-1''" "sample_demand 1 ''DEM-1'' ''ACC-1''" ?dn sample_strptime
        "''system@example.com''" sample_clock] sample_db_DEM_1 vd dn
    by blast
  have w4: "\<exists>demand' db'.
         update_demand sample_strptime sample_db ''DEM-1'' no_demand_update ''system@example.com''
           sample_clock = (Inr (Some demand'), db')
       \<and> get_demand_by_id db' ''DEM-1'' = Some demand'
       \<and> d_original_start_date demand' = Some (Date 2024 3 1)"
    using thm_d [of sample_db "''DEM-1''" "sample_demand 1 ''DEM-1'' ''ACC-1''" no_demand_update
        sample_strptime "''system@example.com''" sample_clock] sample_db_DEM_1 vd du d0
    by metis
  from a0 w1 w2 d0 w3 w4 show ?thesis
    by (intro conjI)
qed

section \<open>Referential integrity\<close>

lemma referential_integrity_iff:
  "referential_integrity db = (\<forall>d \<in> set (demands db). d_account_id d \<in> a_id ` set (accounts db))"
  by (simp add: referential_integrity_def list_all_iff)

lemma add_account_integrity:
  assumes "referential_integrity db"
  shows "referential_integrity (case add_account db account of Inl e \<Rightarrow> db | Inr db' \<Rightarrow> db')"
  using assms by (auto simp: add_account_def referential_integrity_iff)

lemma snd_sum_case:
  "snd (case r of Inl e \<Rightarrow> (Inl e, db) | Inr x \<Rightarrow> (f x, g x)) = (case r of Inl e \<Rightarrow> db | Inr x \<Rightarrow> g x)"
  by (cases r) simp_all

lemma create_account_integrity:
  assumes inv: "referential_integrity db"
  shows "referential_integrity (snd (create_account strptime db account_data user_id t_id t_now))"
proof (cases "to_date strptime (ac_revised_start_date account_data)")
  case (Inl e)
  with inv show ?thesis by (simp add: create_account_def Let_def)
next
  case r: (Inr revised_start)
  show ?thesis
  proof (cases "to_date strptime (ac_planned_start_date account_data)")
    case (Inl e)
    with r inv show ?thesis by (simp add: create_account_def Let_def)
  next
    case ps: (Inr planned_start)
    show ?thesis
    proof (cases "to_date strptime (ac_planned_end_date account_data)")
      case (Inl e)
      with r ps inv show ?thesis by (simp add: create_account_def Let_def)
    next
      case pe: (Inr planned_end)
      from r ps pe show ?thesis
        by (simp only: create_account_def Let_def sum.case snd_sum_case
            add_account_integrity [OF inv])
    qed
  qed
qed

lemma update_account_integrity:
  assumes inv: "referential_integrity db"
  shows "referential_integrity (snd (update_account strptime db account_id account_data user_id t_now))"
proof (cases "get_account_by_id db account_id")
  case None
  with inv show ?thesis by (simp add: update_account_def)
next
  case found: (Some account)
  then have key: "a_id account = account_id"
    by (auto simp: get_account_by_id_def dest: find_key_Some)
  show ?thesis
  proof (cases "convert_date strptime (au_revised_start_date account_data)")
    case (Inl e)
    with found inv show ?thesis by (simp add: update_account_def)
  next
    case r: (Inr r)
    show ?thesis
    proof (cases "convert_date strptime (au_planned_start_date account_data)")
      case (Inl e)
      with found r inv show ?thesis by (simp add: update_account_def)
    next
      case ps: (Inr ps)
      show ?thesis
      proof (cases "convert_date strptime (au_planned_end_date account_data)")
        case (Inl e)
        with found r ps inv show ?thesis by (simp add: update_account_def)
      next
        case pe: (Inr pe)
        show ?thesis
        proof (cases "bindable r \<and> bindable ps \<and> bindable pe")
          case False
          with found r ps pe inv show ?thesis by (auto simp: update_account_def Let_def)
        next
          case True
          then have b: "bindable r" "bindable ps" "bindable pe" by simp_all
          let ?upd = "apply_account_update account_data r ps pe user_id (dt_date t_now)"
          let ?db = "db\<lparr>accounts := map (\<lambda>a. if a_id a = account_id then ?upd a else a) (accounts db)\<rparr>"
          have run: "snd (update_account strptime db account_id account_data user_id t_now) = ?db"
            using update_account_run [OF found r b(1) ps b(2) pe b(3), of user_id t_now] by simp
          have "map a_id (accounts ?db) = map a_id (accounts db)"
            by (simp add: comp_def if_distrib [of a_id] cong: if_cong)
          then have "set (map a_id (accounts ?db)) = set (map a_id (accounts db))"
            by (rule arg_cong)
          moreover have "demands ?db = demands db"
            by simp
          ultimately show ?thesis
            using inv unfolding run referential_integrity_def by (simp only:)
        qed
      qed
    qed
  qed
qed

lemma delete_account_integrity:
  assumes "referential_integrity db"
  shows "referential_integrity (snd (delete_account db account_id))"
proof (cases "get_account_by_id db account_id")
  case None
  with assms show ?thesis by (simp add: delete_account_def)
next
  case (Some account)
  then have key: "a_id account = account_id"
    by (auto simp: get_account_by_id_def dest: find_key_Some)
  show ?thesis
  proof (cases "filter (\<lambda>d. d_account_id d = account_id) (demands db) = []")
    case False
    with Some assms show ?thesis by (simp add: delete_account_def)
  next
    case True
    then have unref: "\<forall>d \<in> set (demands db). d_account_id d \<noteq> account_id"
      by (simp add: filter_empty_conv)
    from Some True key have "snd (delete_account db account_id) =
        db\<lparr>accounts := filter (\<lambda>a. a_id a \<noteq> account_id) (accounts db)\<rparr>"
      by (simp add: delete_account_def)
    with assms unref show ?thesis
      by (auto simp: referential_integrity_iff)
  qed
qed

lemma set_assign_sno_account_ids:
  "d_account_id ` set (assign_sno n rs) = d_account_id ` set rs"
proof -
  have "set (map d_account_id (assign_sno n rs)) = set (map d_account_id rs)"
    by (simp only: map_d_account_id_assign_sno)
  then show ?thesis by simp
qed

lemma add_demands_integrity:
  assumes inv: "referential_integrity db"
      and rows: "\<forall>r \<in> set rows. d_account_id r \<in> a_id ` set (accounts db)"
      and run: "add_demands db rows = Inr (stored, db')"
  shows "referential_integrity db'"
proof -
  let ?new = "assign_sno (next_sno db) rows"
  from add_demands_cases [of db rows] run
  have "Inr (stored, db') = (Inr (?new, db\<lparr>demands := demands db @ ?new\<rparr>)
      :: error + DemandModel list \<times> database)"
    by (elim disjE) (simp_all only: sum.distinct)
  then have "(stored, db') = (?new, db\<lparr>demands := demands db @ ?new\<rparr>)"
    by (simp only: sum.inject)
  then have db': "db' = db\<lparr>demands := demands db @ ?new\<rparr>"
    by (simp only: prod.inject)
  have new: "d_account_id r \<in> a_id ` set (accounts db)" if "r \<in> set ?new" for r
  proof -
    from that have "d_account_id r \<in> d_account_id ` set ?new"
      by (rule imageI)
    then have "d_account_id r \<in> d_account_id ` set rows"
      by (simp only: set_assign_sno_account_ids)
    then obtain r' where "r' \<in> set rows" "d_account_id r = d_account_id r'"
      by (rule imageE)
    with rows show ?thesis by simp
  qed
  have old: "d_account_id d \<in> a_id ` set (accounts db)" if "d \<in> set (demands db)" for d
    using inv that by (simp add: referential_integrity_iff)
  show ?thesis
    unfolding db' referential_integrity_iff using old new by (simp add: ball_Un)
qed

lemma add_demands_integrity_case:
  assumes "referential_integrity db"
      and "\<forall>r \<in> set rows. d_account_id r \<in> a_id ` set (accounts db)"
  shows "referential_integrity
           (case add_demands db rows of Inl e \<Rightarrow> db | Inr (stored, db') \<Rightarrow> db')"
proof (cases "add_demands db rows")
  case (Inl e)
  with assms(1) show ?thesis by simp
next
  case (Inr p)
  then obtain stored db' where p: "add_demands db rows = Inr (stored, db')"
    by (cases p) simp
  from assms p have "referential_integrity db'"
    by (rule add_demands_integrity)
  with p show ?thesis by simp
qed

lemma snd_sum_prod_case:
  "snd (case r of Inl e \<Rightarrow> (Inl e, db) | Inr (stored, db') \<Rightarrow> (f stored db', db')) =
     (case r of Inl e \<Rightarrow> db | Inr (stored, db') \<Rightarrow> db')"
  by (cases r) (simp_all split: prod.splits)

lemma create_demand_integrity:
  assumes inv: "referential_integrity db"
  shows "referential_integrity (snd (create_demand strptime db demand_data user_id t_id t_now))"
proof (cases "get_account_by_id db (dc_account_id demand_data)")
  case None
  with inv show ?thesis by (simp add: create_demand_def)
next
  case found: (Some account)
  then have known: "dc_account_id demand_data \<in> a_id ` set (accounts db)"
    using find_key_None [of a_id "dc_account_id demand_data" "accounts db"]
    by (simp add: get_account_by_id_def)
  show ?thesis
  proof (cases "to_date strptime (dc_original_start_date demand_data)")
    case (Inl e)
    with found inv show ?thesis by (simp add: create_demand_def Let_def)
  next
    case os: (Inr original_start)
    show ?thesis
    proof (cases "to_date strptime (dc_allocation_end_date demand_data)")
      case (Inl e)
      with found os inv show ?thesis by (simp add: create_demand_def Let_def)
    next
      case ae: (Inr allocation_end)
      show ?thesis
      proof (cases "sqlite_integer (dc_allocation_percentage demand_data)
          \<and> sqlite_integer (dc_probability demand_data)")
        case False
        with found os ae inv show ?thesis by (auto simp: create_demand_def Let_def)
      next
        case True
        show ?thesis
          unfolding create_demand_def Let_def found os ae option.case sum.case if_P [OF True]
            snd_sum_prod_case
          by (rule add_demands_integrity_case [OF inv]) (simp add: known)
      qed
    qed
  qed
qed

lemma check_account_id_known:
  assumes "check_account_id db f = Inr v"
  shows "v = Unset \<or> (\<exists>x. v = Provided x \<and> x \<in> a_id ` set (accounts db))"
proof (cases f)
  case Unset
  with assms show ?thesis by (simp add: check_account_id_def)
next
  case (Provided w)
  show ?thesis
  proof (cases w)
    case None
    with Provided assms show ?thesis by (simp add: check_account_id_def)
  next
    case (Some x)
    show ?thesis
    proof (cases "get_account_by_id db x")
      case None
      with Provided Some assms show ?thesis by (simp add: check_account_id_def)
    next
      case (Some account)
      then have "x \<in> a_id ` set (accounts db)"
        using find_key_None [of a_id x "accounts db"] by (simp add: get_account_by_id_def)
      moreover from Provided \<open>w = Some x\<close> Some assms have "v = Provided x"
        by (simp add: check_account_id_def)
      ultimately show ?thesis by simp
    qed
  qed
qed

lemma list_all_mapI: "(\<And>x. x \<in> set xs \<Longrightarrow> P (f x)) \<Longrightarrow> list_all P (map f xs)"
  by (induction xs) simp_all

lemma d_account_id_apply_demand_update:
  "d_account_id (apply_demand_update demand_data v os ae user_id today d) =
     set_column v (d_account_id d)"
  by (simp add: apply_demand_update_def)

lemma update_demand_integrity:
  assumes inv: "referential_integrity db"
  shows "referential_integrity (snd (update_demand strptime db demand_id demand_data user_id t_now))"
proof (cases "get_demand_by_id db demand_id")
  case None
  with inv show ?thesis by (simp add: update_demand_def)
next
  case found: (Some demand)
  show ?thesis
  proof (cases "check_account_id db (du_account_id demand_data)")
    case (Inl e)
    with found inv show ?thesis by (simp add: update_demand_def)
  next
    case acc: (Inr v)
    show ?thesis
    proof (cases "convert_date strptime (du_original_start_date demand_data)")
      case (Inl e)
      with found acc inv show ?thesis by (simp add: update_demand_def)
    next
      case os: (Inr os)
      show ?thesis
      proof (cases "convert_date strptime (du_allocation_end_date demand_data)")
        case (Inl e)
        with found acc os inv show ?thesis by (simp add: update_demand_def)
      next
        case ae: (Inr ae)
        show ?thesis
        proof (cases "bindable os \<and> bindable ae")
          case False
          with found acc os ae inv show ?thesis by (auto simp: update_demand_def Let_def)
        next
          case dates: True
          let ?upd = "apply_demand_update demand_data v os ae user_id (dt_date t_now)"
          show ?thesis
          proof (cases "bindable_integer (du_allocation_percentage demand_data)
              \<and> bindable_integer (du_probability demand_data)")
            case False
            with dates found acc os ae inv show ?thesis by (auto simp: update_demand_def Let_def)
          next
          case True
          with dates found acc os ae
          have run: "snd (update_demand strptime db demand_id demand_data user_id t_now) =
              db\<lparr>demands := map (\<lambda>d. if d_sno d = d_sno demand then ?upd d else d) (demands db)\<rparr>"
            by (simp add: update_demand_def Let_def)
          have step: "d_account_id (if d_sno d = d_sno demand then ?upd d else d) \<in> a_id ` set (accounts db)"
            if "d \<in> set (demands db)" for d
          proof -
            from that inv have old: "d_account_id d \<in> a_id ` set (accounts db)"
              by (simp add: referential_integrity_iff)
            from check_account_id_known [OF acc]
            have "set_column v (d_account_id d) \<in> a_id ` set (accounts db)"
              using old by (elim disjE exE conjE) simp_all
            with old show ?thesis
              by (simp add: d_account_id_apply_demand_update)
          qed
          have "list_all (\<lambda>d. d_account_id d \<in> a_id ` set (accounts db))
              (map (\<lambda>d. if d_sno d = d_sno demand then ?upd d else d) (demands db))"
            by (rule list_all_mapI) (rule step)
          then show ?thesis
            unfolding run referential_integrity_def by simp
          qed
        qed
      qed
    qed
  qed
qed

lemma delete_demand_integrity:
  assumes "referential_integrity db"
  shows "referential_integrity (snd (delete_demand db demand_id))"
proof (cases "get_demand_by_id db demand_id")
  case None
  with assms show ?thesis by (simp add: delete_demand_def)
next
  case (Some demand)
  with assms show ?thesis
    by (simp add: delete_demand_def referential_integrity_iff)
qed

lemma clone_demand_integrity:
  assumes inv: "referential_integrity db"
  shows "referential_integrity (snd (clone_demand db demand_id count user_id t_now stamps))"
proof (cases "get_demand_by_id db demand_id")
  case None
  with inv show ?thesis by (simp add: clone_demand_def)
next
  case found: (Some source_demand)
  then have "source_demand \<in> set (demands db)"
    by (auto simp: get_demand_by_id_def dest: find_key_Some)
  with inv have known: "d_account_id source_demand \<in> a_id ` set (accounts db)"
    by (simp add: referential_integrity_iff)
  let ?rows = "map (\<lambda>i. clone_row source_demand (clone_id (stamps i) i) user_id (dt_date t_now))
                 [0..<nat count]"
  show ?thesis
  proof (cases "add_demands db ?rows")
    case (Inl e)
    with found inv show ?thesis by (simp add: clone_demand_def Let_def)
  next
    case (Inr p)
    then obtain stored db' where p: "add_demands db ?rows = Inr (stored, db')"
      by (cases p) simp
    have "\<forall>r \<in> set ?rows. d_account_id r \<in> a_id ` set (accounts db)"
      using known by simp
    with inv have "referential_integrity db'"
      using p by (rule add_demands_integrity)
    with found p show ?thesis by (simp add: clone_demand_def Let_def)
  qed
qed

lemma perform_integrity:
  "referential_integrity db \<Longrightarrow> referential_integrity (perform strptime db request)"
  by (cases request)
    (simp_all add: create_account_integrity update_account_integrity delete_account_integrity
      create_demand_integrity update_demand_integrity delete_demand_integrity
      clone_demand_integrity)

lemma foldl_perform_integrity:
  "referential_integrity db \<Longrightarrow> referential_integrity (foldl (perform strptime) db requests)"
  by (induction requests arbitrary: db) (simp_all add: perform_integrity)

text \<open>
  C1. Every database reached from the empty one by calls of the write operations
  (create, update and delete of accounts; create, update, delete and clone of demands),
  whatever their arguments, clock readings and outcomes, satisfies
  \<open>referential_integrity\<close>: the \<open>account_id\<close> of every demand is the id of a stored account.
  Each single call preserves it.
\<close>

theorem referential_integrity_reachable:
  "referential_integrity (foldl (perform strptime) empty_db requests)
   \<and> (referential_integrity db \<longrightarrow> referential_integrity (perform strptime db request))"
proof
  have "referential_integrity empty_db"
    by (simp add: referential_integrity_def empty_db_def)
  then show "referential_integrity (foldl (perform strptime) empty_db requests)"
    by (rule foldl_perform_integrity)
next
  show "referential_integrity db \<longrightarrow> referential_integrity (perform strptime db request)"
    by (simp add: perform_integrity)
qed

lemma sample_requests_run:
  "map a_id (accounts (foldl (perform sample_strptime) empty_db sample_requests)) =
     [''ACC-20240105090307'']
   \<and> map d_id (demands (foldl (perform sample_strptime) empty_db sample_requests)) =
     [''DEM-20240105090307'', ''DEM-CLONE-20240105090307-0'', ''DEM-CLONE-20240105090307-1'']
   \<and> map d_account_id (demands (foldl (perform sample_strptime) empty_db sample_requests)) =
     [''ACC-20240105090307'', ''ACC-20240105090307'', ''ACC-20240105090307'']"
  by code_simp

lemma sample_db_integrity: "referential_integrity sample_db"
  by (simp add: referential_integrity_def sample_db_def sample_account_def sample_demand_def)

theorem referential_integrity_reachable_witness:
  "referential_integrity (foldl (perform sample_strptime) empty_db sample_requests)
   \<and> map d_account_id (demands (foldl (perform sample_strptime) empty_db sample_requests)) =
       [''ACC-20240105090307'', ''ACC-20240105090307'', ''ACC-20240105090307'']
   \<and> map a_id (accounts (foldl (perform sample_strptime) empty_db sample_requests)) =
       [''ACC-20240105090307'']
   \<and> referential_integrity sample_db
   \<and> referential_integrity (perform sample_strptime sample_db (DeleteAccount ''ACC-1''))"
  using referential_integrity_reachable [of sample_strptime sample_requests sample_db
      "DeleteAccount ''ACC-1''"] sample_db_integrity sample_requests_run
  by blast

section \<open>Search\<close>









text \<open>
  The wildcards count characters, not bytes: the euro sign, three bytes, is one
  character before the \<open>x\<close>.
\<close>

lemma like_counts_characters:
  "like ''%_x'' [CHR 0xE2, CHR 0x82, CHR 0xAC, CHR ''x'']
   \<and> \<not> like ''%__x'' [CHR 0xE2, CHR 0x82, CHR 0xAC, CHR ''x'']"
  by code_simp






















end
